theory Spec2Isabelle
  imports Main "HOL-Library.AList" "HOL-Library.Sublist"
begin

section \<open>JavaScript values\<close>

text \<open>
  The values the bindings pass around. An object carries its address (its identity, what
  \<^verbatim>\<open>===\<close> compares) and a snapshot of its own enumerable properties in insertion order;
  objects handed to the bindings are not mutated in place. Numbers are the integers and
  \<^verbatim>\<open>NaN\<close>; fractions and the negative zero are left out. A function value is opaque: only
  its identity is visible.
\<close>

datatype okind = Plain | Exotic

datatype jsval =
    Undefined
  | Null
  | Boolean bool
  | Number int
  | NaN
  | String string
  | Function nat
  | Object nat okind "(string \<times> jsval) list"

text \<open>\<^verbatim>\<open>Boolean(v)\<close>, the test of \<^verbatim>\<open>if (v)\<close> and of \<^verbatim>\<open>!v\<close>.\<close>

fun truthy :: "jsval \<Rightarrow> bool" where
  "truthy Undefined = False"
| "truthy Null = False"
| "truthy (Boolean b) = b"
| "truthy (Number n) = (n \<noteq> 0)"
| "truthy NaN = False"
| "truthy (String s) = (s \<noteq> [])"
| "truthy (Function a) = True"
| "truthy (Object a k fs) = True"

text \<open>\<^verbatim>\<open>a === b\<close>: objects and functions by address, \<^verbatim>\<open>NaN\<close> unequal to itself.\<close>

fun strictEq :: "jsval \<Rightarrow> jsval \<Rightarrow> bool" where
  "strictEq (Object a _ _) (Object b _ _) = (a = b)"
| "strictEq x y = (x \<noteq> NaN \<and> x = y)"

text \<open>\<^verbatim>\<open>Object.is(a, b)\<close>: as \<^verbatim>\<open>===\<close>, but \<^verbatim>\<open>NaN\<close> is itself.\<close>

fun objectIs :: "jsval \<Rightarrow> jsval \<Rightarrow> bool" where
  "objectIs (Object a _ _) (Object b _ _) = (a = b)"
| "objectIs x y = (x = y)"

fun isObject :: "jsval \<Rightarrow> bool" where
  "isObject (Object _ _ _) = True"
| "isObject _ = False"

fun ownProps :: "jsval \<Rightarrow> (string \<times> jsval) list" where
  "ownProps (Object _ _ fs) = fs"
| "ownProps _ = []"

text \<open>
  Modelled from the spec: \<^verbatim>\<open>utils/shallowEqual\<close> is imported by the sources but is not
  among them. The specification (4.1): true if the two are reference-identical, or if both
  are non-null key-value mappings with the same set of keys and, for every key,
  \<^verbatim>\<open>Object.is\<close>-style identity between the corresponding values; no recursion.
\<close>

definition shallowEqual :: "jsval \<Rightarrow> jsval \<Rightarrow> bool" where
  "shallowEqual a b =
     (objectIs a b \<or>
      (isObject a \<and> isObject b \<and>
       set (map fst (ownProps a)) = set (map fst (ownProps b)) \<and>
       list_all (\<lambda>k. case (map_of (ownProps a) k, map_of (ownProps b) k) of
                        (Some x, Some y) \<Rightarrow> objectIs x y
                      | _ \<Rightarrow> False)
                (map fst (ownProps a))))"

text \<open>
  Modelled from the spec: \<^verbatim>\<open>utils/isPlainObject\<close> is imported by the sources but is not
  among them. The specification asks the stages for "a key-value mapping": an object
  literal, as opposed to a primitive, a function, an array or a class instance.
\<close>

fun isPlainObject :: "jsval \<Rightarrow> bool" where
  "isPlainObject (Object _ Plain _) = True"
| "isPlainObject _ = False"

subsection \<open>The runtime the callbacks run in\<close>

text \<open>
  Callbacks supplied by the user may keep state of their own and allocate objects. They
  are functions on a runtime state: the next free address and whatever the callbacks
  keep. A callback that throws leaves through the caller unchanged; the callbacks of the
  wrapper and of the selector pipeline are taken to return.
\<close>

record 'u runtime =
  nextAddr :: nat
  userState :: 'u

definition newObject :: "(string \<times> jsval) list \<Rightarrow> 'u runtime \<Rightarrow> jsval \<times> 'u runtime" where
  "newObject fs rt = (Object (nextAddr rt) Plain fs, rt\<lparr>nextAddr := Suc (nextAddr rt)\<rparr>)"

text \<open>A function value as called: its declared arity (\<^verbatim>\<open>f.length\<close>) and its body.\<close>

record 'u jsfun =
  arity :: nat
  body :: "jsval list \<Rightarrow> 'u runtime \<Rightarrow> jsval \<times> 'u runtime"

text \<open>A parameter for which the call passed no argument is \<^verbatim>\<open>undefined\<close>.\<close>

definition arg :: "nat \<Rightarrow> jsval list \<Rightarrow> jsval" where
  "arg i args = (if i < length args then args ! i else Undefined)"

section \<open>The declarative wrapper: \<^verbatim>\<open>src/components/createConnect.js\<close>\<close>

subsection \<open>Errors\<close>

text \<open>
  \<^verbatim>\<open>invariant(condition, format, ...args)\<close> of the package \<^verbatim>\<open>invariant\<close> throws, when the
  condition is false, an error whose message is the format with each \<^verbatim>\<open>%s\<close> replaced by
  the next argument converted to a string. The error keeps the format and the arguments;
  \<open>errorMessage\<close> builds the message, given the conversion of values to strings.
  \<open>Error m\<close> is \<^verbatim>\<open>new Error(m)\<close>.
\<close>

datatype js_error = Invariant_Violation string "jsval list" | Error string

definition invariant :: "bool \<Rightarrow> string \<Rightarrow> jsval list \<Rightarrow> js_error + unit" where
  "invariant condition format args =
     (if condition then Inr () else Inl (Invariant_Violation format args))"

fun replacePercentS :: "string \<Rightarrow> string list \<Rightarrow> string" where
  "replacePercentS (CHR ''%'' # CHR ''s'' # rest) (a # as) = a @ replacePercentS rest as"
| "replacePercentS (CHR ''%'' # CHR ''s'' # rest) [] = ''undefined'' @ replacePercentS rest []"
| "replacePercentS (c # rest) as = c # replacePercentS rest as"
| "replacePercentS [] as = []"

fun errorMessage :: "(jsval \<Rightarrow> string) \<Rightarrow> js_error \<Rightarrow> string" where
  "errorMessage toString (Invariant_Violation format args) =
     replacePercentS format (map toString args)"
| "errorMessage toString (Error m) = m"

subsection \<open>The store\<close>

text \<open>
  The store is an external collaborator with the contract \<^verbatim>\<open>getState\<close>, \<^verbatim>\<open>dispatch\<close>,
  \<^verbatim>\<open>subscribe(listener) -> unsubscribe\<close>. Its listeners are kept in registration order,
  each with the handle its \<^verbatim>\<open>unsubscribe\<close> function removes; a listener is named by the
  instance whose bound \<^verbatim>\<open>handleChange\<close> it is. \<open>getStateCalls\<close> counts the reads, so
  that a path that does not read the state can be told from one that does.
\<close>

record store =
  storeState :: jsval
  dispatchFn :: jsval
  listeners :: "(nat \<times> nat) list"
  nextHandle :: nat
  getStateCalls :: nat

definition getState :: "store \<Rightarrow> jsval \<times> store" where
  "getState s = (storeState s, s\<lparr>getStateCalls := Suc (getStateCalls s)\<rparr>)"

definition subscribe :: "nat \<Rightarrow> store \<Rightarrow> nat \<times> store" where
  "subscribe listener s =
     (nextHandle s,
      s\<lparr>listeners := listeners s @ [(nextHandle s, listener)],
        nextHandle := Suc (nextHandle s)\<rparr>)"

definition callUnsubscribe :: "nat \<Rightarrow> store \<Rightarrow> store" where
  "callUnsubscribe h s = s\<lparr>listeners := filter (\<lambda>(h', l). h' \<noteq> h) (listeners s)\<rparr>"

subsection \<open>\<^verbatim>\<open>connect(mapStateToProps, mapDispatchToProps, mergeProps, options)\<close>\<close>

definition defaultMapStateToProps :: "'u jsfun" where
  "defaultMapStateToProps = \<lparr>arity = 0, body = (\<lambda>args rt. newObject [] rt)\<rparr>"

definition defaultMapDispatchToProps :: "'u jsfun" where
  "defaultMapDispatchToProps =
     \<lparr>arity = 1, body = (\<lambda>args rt. newObject [(''dispatch'', arg 0 args)] rt)\<rparr>"

text \<open>\<^verbatim>\<open>{ ...parentProps, ...stateProps, ...dispatchProps }\<close>: later spreads override.\<close>

definition spread :: "(string \<times> jsval) list \<Rightarrow> jsval \<Rightarrow> (string \<times> jsval) list" where
  "spread fs v = fold (\<lambda>(k, x) acc. AList.update k x acc) (ownProps v) fs"

definition defaultMergeProps :: "'u jsfun" where
  "defaultMergeProps =
     \<lparr>arity = 3,
      body = (\<lambda>args rt.
        newObject (spread (spread (spread [] (arg 2 args)) (arg 0 args)) (arg 1 args)) rt)\<rparr>"

datatype 'u mapDispatch_arg = MD_absent | MD_object jsval | MD_function "'u jsfun"

record 'u connect_config =
  shouldSubscribe :: bool
  finalMapStateToProps :: "'u jsfun"
  finalMapDispatchToProps :: "'u jsfun"
  finalMergeProps :: "'u jsfun"
  shouldUpdateStateProps :: bool
  shouldUpdateDispatchProps :: bool
  pureOption :: bool
  configVersion :: nat

text \<open>
  \<^verbatim>\<open>utils/wrapActionCreators\<close> is not among the sources: it is a parameter. The last
  argument is the module's \<^verbatim>\<open>nextVersion\<close> counter, returned incremented.
\<close>

definition connect ::
  "(jsval \<Rightarrow> 'u jsfun) \<Rightarrow> 'u jsfun option \<Rightarrow> 'u mapDispatch_arg \<Rightarrow> 'u jsfun option \<Rightarrow>
   bool option \<Rightarrow> nat \<Rightarrow> 'u connect_config \<times> nat" where
  "connect wrapActionCreators mapStateToProps mapDispatchToProps mergeProps options nextVersion =
     (let fms = (case mapStateToProps of Some f \<Rightarrow> f | None \<Rightarrow> defaultMapStateToProps);
          fmd = (case mapDispatchToProps of
                   MD_object obj \<Rightarrow> wrapActionCreators obj
                 | MD_function f \<Rightarrow> f
                 | MD_absent \<Rightarrow> defaultMapDispatchToProps);
          fmp = (case mergeProps of Some f \<Rightarrow> f | None \<Rightarrow> defaultMergeProps)
      in (\<lparr>shouldSubscribe = (mapStateToProps \<noteq> None),
           finalMapStateToProps = fms,
           finalMapDispatchToProps = fmd,
           finalMergeProps = fmp,
           shouldUpdateStateProps = (arity fms > 1),
           shouldUpdateDispatchProps = (arity fmd > 1),
           pureOption = (case options of Some p \<Rightarrow> p | None \<Rightarrow> True),
           configVersion = nextVersion\<rparr>,
          Suc nextVersion))"

definition computeStateProps ::
  "'u connect_config \<Rightarrow> store \<Rightarrow> jsval \<Rightarrow> 'u runtime \<Rightarrow> (js_error + jsval) \<times> store \<times> 'u runtime" where
  "computeStateProps cfg st props rt =
     (let (state, st1) = getState st;
          (stateProps, rt1) =
            (if shouldUpdateStateProps cfg
             then body (finalMapStateToProps cfg) [state, props] rt
             else body (finalMapStateToProps cfg) [state] rt)
      in (case invariant (isPlainObject stateProps)
                 ''`mapStateToProps` must return an object. Instead received %s.''
                 [stateProps] of
            Inl e \<Rightarrow> (Inl e, st1, rt1)
          | Inr _ \<Rightarrow> (Inr stateProps, st1, rt1)))"

definition computeDispatchProps ::
  "'u connect_config \<Rightarrow> store \<Rightarrow> jsval \<Rightarrow> 'u runtime \<Rightarrow> (js_error + jsval) \<times> 'u runtime" where
  "computeDispatchProps cfg st props rt =
     (let dispatch = dispatchFn st;
          (dispatchProps, rt1) =
            (if shouldUpdateDispatchProps cfg
             then body (finalMapDispatchToProps cfg) [dispatch, props] rt
             else body (finalMapDispatchToProps cfg) [dispatch] rt)
      in (case invariant (isPlainObject dispatchProps)
                 ''`mapDispatchToProps` must return an object. Instead received %s.''
                 [dispatchProps] of
            Inl e \<Rightarrow> (Inl e, rt1)
          | Inr _ \<Rightarrow> (Inr dispatchProps, rt1)))"

definition computeNextState ::
  "'u connect_config \<Rightarrow> jsval \<Rightarrow> jsval \<Rightarrow> jsval \<Rightarrow> 'u runtime \<Rightarrow> (js_error + jsval) \<times> 'u runtime" where
  "computeNextState cfg stateProps dispatchProps parentProps rt =
     (let (mergedProps, rt1) = body (finalMergeProps cfg) [stateProps, dispatchProps, parentProps] rt
      in (case invariant (isPlainObject mergedProps)
                 ''`mergeProps` must return an object. Instead received %s.''
                 [mergedProps] of
            Inl e \<Rightarrow> (Inl e, rt1)
          | Inr _ \<Rightarrow> (Inr mergedProps, rt1)))"

subsection \<open>The \<^verbatim>\<open>Connect\<close> component\<close>

text \<open>
  \<^verbatim>\<open>this.unsubscribe\<close> is \<^verbatim>\<open>undefined\<close> until the first subscription, the function the
  store returned while subscribed, and \<^verbatim>\<open>null\<close> after \<^verbatim>\<open>tryUnsubscribe\<close>.
\<close>

datatype unsub = Unset | Cleared | Handle nat

fun unsubTruthy :: "unsub \<Rightarrow> bool" where
  "unsubTruthy (Handle h) = True"
| "unsubTruthy _ = False"

text \<open>
  The fields of an instance. \<open>iid\<close> is the identity of the instance, under which its
  bound \<^verbatim>\<open>handleChange\<close> is registered with the store. \<open>updateQueue\<close> holds the partial
  states passed to \<^verbatim>\<open>setState\<close>: the host schedules an update for each.
\<close>

record connect_instance =
  iid :: nat
  version :: nat
  store :: store
  props :: jsval
  stateProps :: jsval
  dispatchProps :: jsval
  stateStoreState :: jsval
  nextState :: jsval
  unsubscribe :: unsub
  updateQueue :: "jsval list"

definition setState :: "jsval \<Rightarrow> connect_instance \<Rightarrow> connect_instance" where
  "setState storeState' inst = inst\<lparr>updateQueue := updateQueue inst @ [storeState']\<rparr>"

text \<open>A method parameter \<^verbatim>\<open>props = this.props\<close>: the default stands in for \<^verbatim>\<open>undefined\<close>.\<close>

definition orThisProps :: "jsval \<Rightarrow> connect_instance \<Rightarrow> jsval" where
  "orThisProps p inst = (if p = Undefined then props inst else p)"

definition updateStateProps ::
  "'u connect_config \<Rightarrow> jsval \<Rightarrow> connect_instance \<Rightarrow> 'u runtime \<Rightarrow>
   (js_error + bool) \<times> connect_instance \<times> 'u runtime" where
  "updateStateProps cfg p inst rt =
     (case computeStateProps cfg (store inst) (orThisProps p inst) rt of
        (Inl e, st1, rt1) \<Rightarrow> (Inl e, inst\<lparr>store := st1\<rparr>, rt1)
      | (Inr nextStateProps, st1, rt1) \<Rightarrow>
          if shallowEqual nextStateProps (stateProps inst)
          then (Inr False, inst\<lparr>store := st1\<rparr>, rt1)
          else (Inr True, inst\<lparr>store := st1, stateProps := nextStateProps\<rparr>, rt1))"

definition updateDispatchProps ::
  "'u connect_config \<Rightarrow> jsval \<Rightarrow> connect_instance \<Rightarrow> 'u runtime \<Rightarrow>
   (js_error + bool) \<times> connect_instance \<times> 'u runtime" where
  "updateDispatchProps cfg p inst rt =
     (case computeDispatchProps cfg (store inst) (orThisProps p inst) rt of
        (Inl e, rt1) \<Rightarrow> (Inl e, inst, rt1)
      | (Inr nextDispatchProps, rt1) \<Rightarrow>
          if shallowEqual nextDispatchProps (dispatchProps inst)
          then (Inr False, inst, rt1)
          else (Inr True, inst\<lparr>dispatchProps := nextDispatchProps\<rparr>, rt1))"

definition updateState ::
  "'u connect_config \<Rightarrow> jsval \<Rightarrow> connect_instance \<Rightarrow> 'u runtime \<Rightarrow>
   (js_error + unit) \<times> connect_instance \<times> 'u runtime" where
  "updateState cfg p inst rt =
     (case computeNextState cfg (stateProps inst) (dispatchProps inst) (orThisProps p inst) rt of
        (Inl e, rt1) \<Rightarrow> (Inl e, inst, rt1)
      | (Inr merged, rt1) \<Rightarrow> (Inr (), inst\<lparr>nextState := merged\<rparr>, rt1))"

definition getDisplayName :: "string \<Rightarrow> string \<Rightarrow> string" where
  "getDisplayName displayName name =
     (if displayName \<noteq> [] then displayName else if name \<noteq> [] then name else ''Component'')"

definition connectDisplayName :: "string \<Rightarrow> string \<Rightarrow> string" where
  "connectDisplayName displayName name = ''Connect('' @ getDisplayName displayName name @ '')''"

text \<open>A string between double quotes.\<close>

definition quoted :: "string \<Rightarrow> string" where
  "quoted s = CHR 0x22 # s @ [CHR 0x22]"

text \<open>
  \<^verbatim>\<open>constructor(props, context)\<close>. The two places a store can come from are
  \<^verbatim>\<open>props.store\<close> and \<^verbatim>\<open>context.store\<close>; \<open>self\<close> is the identity of the new instance and
  \<open>dn\<close> the display name of the class.
\<close>

definition connect_constructor ::
  "'u connect_config \<Rightarrow> string \<Rightarrow> nat \<Rightarrow> jsval \<Rightarrow> store option \<Rightarrow> store option \<Rightarrow> 'u runtime \<Rightarrow>
   (js_error + connect_instance) \<times> 'u runtime" where
  "connect_constructor cfg dn self p propsStore contextStore rt =
     (case (case propsStore of Some s \<Rightarrow> Some s | None \<Rightarrow> contextStore) of
        None \<Rightarrow>
          (Inl (Invariant_Violation
                 (''Could not find '' @ quoted ''store'' @
                  '' in either the context or props of '' @ quoted dn @
                  ''. Either wrap the root component in a <Provider>, '' @
                  ''or explicitly pass '' @ quoted ''store'' @ '' as a prop to '' @
                  quoted dn @ ''.'') []), rt)
      | Some s \<Rightarrow>
          (case computeStateProps cfg s p rt of
             (Inl e, s1, rt1) \<Rightarrow> (Inl e, rt1)
           | (Inr sp, s1, rt1) \<Rightarrow>
               (case computeDispatchProps cfg s1 p rt1 of
                  (Inl e, rt2) \<Rightarrow> (Inl e, rt2)
                | (Inr dp, rt2) \<Rightarrow>
                    (let inst = \<lparr>iid = self, version = configVersion cfg, store = s1,
                                 props = p, stateProps = sp, dispatchProps = dp,
                                 stateStoreState = Null, nextState = Undefined,
                                 unsubscribe = Unset, updateQueue = []\<rparr>
                     in (case updateState cfg Undefined inst rt2 of
                           (Inl e, inst1, rt3) \<Rightarrow> (Inl e, rt3)
                         | (Inr _, inst1, rt3) \<Rightarrow> (Inr inst1, rt3))))))"

definition isSubscribed :: "connect_instance \<Rightarrow> bool" where
  "isSubscribed inst = (case unsubscribe inst of Handle h \<Rightarrow> True | _ \<Rightarrow> False)"

definition handleChange :: "connect_instance \<Rightarrow> connect_instance" where
  "handleChange inst =
     (if \<not> unsubTruthy (unsubscribe inst) then inst
      else (let (state, st1) = getState (store inst)
            in setState state (inst\<lparr>store := st1\<rparr>)))"

definition trySubscribe :: "'u connect_config \<Rightarrow> connect_instance \<Rightarrow> connect_instance" where
  "trySubscribe cfg inst =
     (if shouldSubscribe cfg \<and> \<not> unsubTruthy (unsubscribe inst)
      then (let (h, st1) = subscribe (iid inst) (store inst)
            in handleChange (inst\<lparr>store := st1, unsubscribe := Handle h\<rparr>))
      else inst)"

definition tryUnsubscribe :: "connect_instance \<Rightarrow> connect_instance" where
  "tryUnsubscribe inst =
     (case unsubscribe inst of
        Handle h \<Rightarrow> inst\<lparr>store := callUnsubscribe h (store inst), unsubscribe := Cleared\<rparr>
      | _ \<Rightarrow> inst)"

definition componentDidMount :: "'u connect_config \<Rightarrow> connect_instance \<Rightarrow> connect_instance" where
  "componentDidMount cfg inst = trySubscribe cfg inst"

definition componentWillUnmount :: "connect_instance \<Rightarrow> connect_instance" where
  "componentWillUnmount inst = tryUnsubscribe inst"

text \<open>
  What happens to an instance from outside. A dispatch gives the store a new state and
  calls the listeners registered at that moment, in order; of these, the ones of this
  instance are its \<^verbatim>\<open>handleChange\<close>. \<open>LateNotification\<close> is a call of the bound
  \<^verbatim>\<open>handleChange\<close> by a notification pass that had read the listeners before the
  instance unsubscribed. \<open>HotReload\<close> is the \<^verbatim>\<open>trySubscribe\<close> of
  \<^verbatim>\<open>componentWillUpdate\<close>.
\<close>

datatype event = Mount | Unmount | Dispatch jsval | LateNotification | HotReload

definition dispatch :: "jsval \<Rightarrow> connect_instance \<Rightarrow> connect_instance" where
  "dispatch v inst =
     (let inst1 = inst\<lparr>store := (store inst)\<lparr>storeState := v\<rparr>\<rparr>
      in fold (\<lambda>(h, l) i. if l = iid i then handleChange i else i)
              (listeners (store inst1)) inst1)"

fun step :: "'u connect_config \<Rightarrow> event \<Rightarrow> connect_instance \<Rightarrow> connect_instance" where
  "step cfg Mount inst = componentDidMount cfg inst"
| "step cfg Unmount inst = componentWillUnmount inst"
| "step cfg (Dispatch v) inst = dispatch v inst"
| "step cfg LateNotification inst = handleChange inst"
| "step cfg HotReload inst = trySubscribe cfg inst"

definition run :: "'u connect_config \<Rightarrow> event list \<Rightarrow> connect_instance \<Rightarrow> connect_instance" where
  "run cfg evs inst = fold (step cfg) evs inst"

text \<open>
  A notification reaching the instance: a dispatch with the new state, or a late call of
  the bound \<^verbatim>\<open>handleChange\<close>.
\<close>

fun notification :: "jsval option \<Rightarrow> event" where
  "notification None = LateNotification"
| "notification (Some v) = Dispatch v"

subsection \<open>Concrete instances\<close>

text \<open>A store with one foreign listener, a runtime, and two configurations.\<close>

definition exampleStore :: store where
  "exampleStore = \<lparr>storeState = Number 0, dispatchFn = Function 0, listeners = [(0, 7)],
                    nextHandle = 1, getStateCalls = 0\<rparr>"

definition exampleRuntime :: "unit runtime" where
  "exampleRuntime = \<lparr>nextAddr = 100, userState = ()\<rparr>"

definition exampleProps :: jsval where
  "exampleProps = Object 50 Plain [(''a'', Number 1)]"

definition exampleInstance :: connect_instance where
  "exampleInstance =
     \<lparr>iid = 1, version = 0, store = exampleStore\<lparr>getStateCalls := 1\<rparr>,
      props = exampleProps, stateProps = Object 100 Plain [],
      dispatchProps = Object 101 Plain [(''dispatch'', Function 0)],
      stateStoreState = Null,
      nextState = Object 102 Plain [(''a'', Number 1), (''dispatch'', Function 0)],
      unsubscribe = Unset, updateQueue = []\<rparr>"

definition exampleConfig :: "unit connect_config" where
  "exampleConfig =
     \<lparr>shouldSubscribe = False,
      finalMapStateToProps = defaultMapStateToProps,
      finalMapDispatchToProps = defaultMapDispatchToProps,
      finalMergeProps = defaultMergeProps,
      shouldUpdateStateProps = False,
      shouldUpdateDispatchProps = False,
      pureOption = True,
      configVersion = 0\<rparr>"

definition numberThree :: "unit jsfun" where
  "numberThree = \<lparr>arity = 1, body = (\<lambda>args rt. (Number 3, rt))\<rparr>"

definition badConfig :: "unit connect_config" where
  "badConfig =
     \<lparr>shouldSubscribe = True,
      finalMapStateToProps = numberThree,
      finalMapDispatchToProps = numberThree,
      finalMergeProps = numberThree,
      shouldUpdateStateProps = False,
      shouldUpdateDispatchProps = False,
      pureOption = True,
      configVersion = 0\<rparr>"

fun exampleToString :: "jsval \<Rightarrow> string" where
  "exampleToString (Number n) = (if n = 3 then ''3'' else ''?'')"
| "exampleToString _ = ''?''"

section \<open>The selector pipeline: final-props selectors and the own-props selector\<close>

text \<open>
  The options of \<^verbatim>\<open>createFinalPropsSelector\<close>: the three stages and the merge, each
  called as a function of the runtime, and the \<^verbatim>\<open>pure\<close> flag.
\<close>

record 'u selector_options =
  getState_opt :: "'u jsfun"
  getDispatch_opt :: "'u jsfun"
  getOwnProps_opt :: "'u jsfun"
  mergeProps_opt :: "'u jsfun"
  pure_opt :: bool

definition impureSelector ::
  "'u selector_options \<Rightarrow> jsval \<Rightarrow> jsval \<Rightarrow> jsval \<Rightarrow> 'u runtime \<Rightarrow> jsval \<times> 'u runtime" where
  "impureSelector opts state props' dispatch' rt =
     (let (s, rt1) = body (getState_opt opts) [state, props', dispatch'] rt;
          (d, rt2) = body (getDispatch_opt opts) [state, props', dispatch'] rt1;
          (own, rt3) = body (getOwnProps_opt opts) [state, props', dispatch'] rt2
      in body (mergeProps_opt opts) [s, d, own] rt3)"

text \<open>The variables the closure \<^verbatim>\<open>pureSelector\<close> keeps between calls, all \<^verbatim>\<open>undefined\<close> at first.\<close>

record pure_closure =
  lastOwn :: jsval
  lastState :: jsval
  lastDispatch :: jsval
  lastMerged :: jsval
  lastResult :: jsval

definition createPureFinalPropsSelector :: pure_closure where
  "createPureFinalPropsSelector =
     \<lparr>lastOwn = Undefined, lastState = Undefined, lastDispatch = Undefined,
      lastMerged = Undefined, lastResult = Undefined\<rparr>"

definition pureSelector ::
  "'u selector_options \<Rightarrow> jsval \<Rightarrow> jsval \<Rightarrow> jsval \<Rightarrow> pure_closure \<Rightarrow> 'u runtime \<Rightarrow>
   jsval \<times> pure_closure \<times> 'u runtime" where
  "pureSelector opts state props' dispatch' c rt =
     (let (nextOwn, rt1) = body (getOwnProps_opt opts) [state, props', dispatch'] rt;
          (nextState', rt2) = body (getState_opt opts) [state, props', dispatch'] rt1;
          (nextDispatch, rt3) = body (getDispatch_opt opts) [state, props', dispatch'] rt2;
          (c1, rt4) =
            (if \<not> strictEq (lastOwn c) nextOwn \<or> \<not> strictEq (lastState c) nextState' \<or>
                \<not> strictEq (lastDispatch c) nextDispatch
             then (let (nextMerged, rt') =
                         body (mergeProps_opt opts) [nextState', nextDispatch, nextOwn] rt3;
                       c' = (if \<not> truthy (lastMerged c) \<or> \<not> shallowEqual (lastMerged c) nextMerged
                             then c\<lparr>lastResult := nextMerged\<rparr> else c)
                   in (c'\<lparr>lastMerged := nextMerged\<rparr>, rt'))
             else (c, rt3));
          c2 = c1\<lparr>lastOwn := nextOwn, lastState := nextState', lastDispatch := nextDispatch\<rparr>
      in (lastResult c2, c2, rt4))"

text \<open>\<^verbatim>\<open>createFinalPropsSelector\<close>: the pure selector when \<^verbatim>\<open>options.pure\<close>, else the impure one.\<close>

definition finalPropsSelector ::
  "'u selector_options \<Rightarrow> jsval \<Rightarrow> jsval \<Rightarrow> jsval \<Rightarrow> pure_closure \<Rightarrow> 'u runtime \<Rightarrow>
   jsval \<times> pure_closure \<times> 'u runtime" where
  "finalPropsSelector opts state props' dispatch' c rt =
     (if pure_opt opts then pureSelector opts state props' dispatch' c rt
      else (let (r, rt1) = impureSelector opts state props' dispatch' rt in (r, c, rt1)))"

text \<open>
  A sequence of calls of the pure selector, each with its state, props and dispatch,
  from a closure and a runtime: what each call returns and the runtime it leaves.
\<close>

fun pureSelector_results ::
  "'u selector_options \<Rightarrow> (jsval \<times> jsval \<times> jsval) list \<Rightarrow> pure_closure \<times> 'u runtime \<Rightarrow>
   (jsval \<times> 'u runtime) list" where
  "pureSelector_results opts [] w = []"
| "pureSelector_results opts ((state, props', dispatch') # calls) (c, rt) =
     (case pureSelector opts state props' dispatch' c rt of
        (r, c1, rt1) \<Rightarrow> (r, rt1) # pureSelector_results opts calls (c1, rt1))"

text \<open>
  \<^verbatim>\<open>memoizeFinalPropsSelector(selector, enhance)\<close>: the closure keeps \<^verbatim>\<open>lastProps\<close> and
  \<^verbatim>\<open>lastResult\<close>; the step is given the value the selector returned.
\<close>

definition memoize ::
  "'u jsfun \<Rightarrow> jsval \<Rightarrow> jsval \<times> jsval \<Rightarrow> 'u runtime \<Rightarrow> jsval \<times> (jsval \<times> jsval) \<times> 'u runtime" where
  "memoize enhance nextProps m rt =
     (case m of (lastProps, lastResult') \<Rightarrow>
        if \<not> truthy lastProps \<or> \<not> shallowEqual lastProps nextProps
        then (let (r, rt1) = body enhance [nextProps] rt in (r, (nextProps, r), rt1))
        else (lastResult', (nextProps, lastResult'), rt))"

definition impureOwnPropsSelector :: "jsval \<Rightarrow> jsval \<Rightarrow> jsval" where
  "impureOwnPropsSelector u props' = props'"

text \<open>\<^verbatim>\<open>buildPureOwnPropsSelector\<close>: the closure keeps \<^verbatim>\<open>lastProps\<close> and \<^verbatim>\<open>lastResult\<close>.\<close>

definition pureOwnPropsSelector :: "jsval \<Rightarrow> jsval \<Rightarrow> jsval \<times> jsval \<Rightarrow> jsval \<times> (jsval \<times> jsval)" where
  "pureOwnPropsSelector u nextProps m =
     (case m of (lastProps, lastResult') \<Rightarrow>
        (let r = (if \<not> truthy lastProps \<or> \<not> shallowEqual lastProps nextProps
                  then nextProps else lastResult')
         in (r, (nextProps, r))))"

subsection \<open>The two-tier composition in the words of the specification\<close>

text \<open>
  The words of the specification (4.3), on the history of the invocations. What is known
  after an invocation: the three inputs of that invocation (own props, state-derived,
  dispatch-derived), the value the most recent run of the merge returned, if the merge
  has run at all, and the value the invocation returned. Before the first invocation the
  three inputs and the returned value are \<^verbatim>\<open>undefined\<close>, as the variables of the closure
  are.
\<close>

datatype invocation_history = History "jsval \<times> jsval \<times> jsval" "jsval option" jsval

definition noInvocation :: invocation_history where
  "noInvocation = History (Undefined, Undefined, Undefined) None Undefined"

text \<open>
  An invocation recomputes each of the three inputs. The merge is invoked only if at
  least one of the three differs by reference (\<^verbatim>\<open>!==\<close>) from the input of the previous
  invocation. When the merge is invoked, the returned value is the new merged value only
  if that is not shallow-equal to the previous merged value; otherwise the previously
  returned value is retained. When the merge is not invoked, the previously returned
  value is returned.
\<close>

definition twoTierSelector ::
  "'u selector_options \<Rightarrow> jsval \<Rightarrow> jsval \<Rightarrow> jsval \<Rightarrow> invocation_history \<Rightarrow> 'u runtime \<Rightarrow>
   jsval \<times> invocation_history \<times> 'u runtime" where
  "twoTierSelector opts state props' dispatch' hist rt =
     (case hist of History (previousOwn, previousState, previousDispatch) previousMerged previousReturned \<Rightarrow>
        (let (own, rt1) = body (getOwnProps_opt opts) [state, props', dispatch'] rt;
             (stateDerived, rt2) = body (getState_opt opts) [state, props', dispatch'] rt1;
             (dispatchDerived, rt3) = body (getDispatch_opt opts) [state, props', dispatch'] rt2
         in if strictEq previousOwn own \<and> strictEq previousState stateDerived \<and>
               strictEq previousDispatch dispatchDerived
            then (previousReturned,
                  History (own, stateDerived, dispatchDerived) previousMerged previousReturned,
                  rt3)
            else (let (merged, rt4) =
                        body (mergeProps_opt opts) [stateDerived, dispatchDerived, own] rt3;
                      returned =
                        (case previousMerged of
                           None \<Rightarrow> merged
                         | Some previous \<Rightarrow>
                             if shallowEqual previous merged then previousReturned else merged)
                  in (returned,
                      History (own, stateDerived, dispatchDerived) (Some merged) returned,
                      rt4))))"

fun twoTierSelector_results ::
  "'u selector_options \<Rightarrow> (jsval \<times> jsval \<times> jsval) list \<Rightarrow> invocation_history \<times> 'u runtime \<Rightarrow>
   (jsval \<times> 'u runtime) list" where
  "twoTierSelector_results opts [] w = []"
| "twoTierSelector_results opts ((state, props', dispatch') # calls) (hist, rt) =
     (case twoTierSelector opts state props' dispatch' hist rt of
        (r, hist1, rt1) \<Rightarrow> (r, rt1) # twoTierSelector_results opts calls (hist1, rt1))"

text \<open>
  A closure agrees with a history: its variables are the inputs of the previous
  invocation, the most recent merged value and the previously returned value; and a
  falsy \<^verbatim>\<open>lastMerged\<close> is also the last result.
\<close>

fun agrees :: "pure_closure \<Rightarrow> invocation_history \<Rightarrow> bool" where
  "agrees c (History (previousOwn, previousState, previousDispatch) previousMerged previousReturned) =
     (lastOwn c = previousOwn \<and> lastState c = previousState \<and>
      lastDispatch c = previousDispatch \<and> lastResult c = previousReturned \<and>
      lastMerged c = (case previousMerged of None \<Rightarrow> Undefined | Some previous \<Rightarrow> previous) \<and>
      (truthy (lastMerged c) \<or> lastResult c = lastMerged c))"

subsection \<open>A concrete pipeline\<close>

text \<open>
  The default merge, counting its calls in the state of the runtime; stages that return
  the state, a dispatch object at a fixed address and the props as they are; two props
  objects with the same content at different addresses.
\<close>

definition countingMerge :: "nat jsfun" where
  "countingMerge =
     \<lparr>arity = 3,
      body = (\<lambda>args rt. case body defaultMergeProps args rt of
                (v, rt1) \<Rightarrow> (v, rt1\<lparr>userState := Suc (userState rt1)\<rparr>))\<rparr>"

definition exampleOptions :: "nat selector_options" where
  "exampleOptions =
     \<lparr>getState_opt = \<lparr>arity = 3, body = (\<lambda>args rt. (arg 0 args, rt))\<rparr>,
      getDispatch_opt =
        \<lparr>arity = 3, body = (\<lambda>args rt. (Object 5 Plain [(''dispatch'', arg 2 args)], rt))\<rparr>,
      getOwnProps_opt =
        \<lparr>arity = 3, body = (\<lambda>args rt. (impureOwnPropsSelector (arg 0 args) (arg 1 args), rt))\<rparr>,
      mergeProps_opt = countingMerge,
      pure_opt = True\<rparr>"

definition exampleState :: jsval where
  "exampleState = Object 1 Plain [(''count'', Number 0)]"

definition propsA :: jsval where
  "propsA = Object 2 Plain [(''a'', Number 1)]"

definition propsB :: jsval where
  "propsB = Object 4 Plain [(''a'', Number 1)]"

definition dispatchProps5 :: jsval where
  "dispatchProps5 = Object 5 Plain [(''dispatch'', Function 3)]"

definition merged100 :: jsval where
  "merged100 = Object 100 Plain [(''a'', Number 1), (''count'', Number 0), (''dispatch'', Function 3)]"

definition merged101 :: jsval where
  "merged101 = Object 101 Plain [(''a'', Number 1), (''count'', Number 0), (''dispatch'', Function 3)]"

definition closureAfterA :: pure_closure where
  "closureAfterA =
     \<lparr>lastOwn = propsA, lastState = exampleState, lastDispatch = dispatchProps5,
      lastMerged = merged100, lastResult = merged100\<rparr>"

definition runtime0 :: "nat runtime" where
  "runtime0 = \<lparr>nextAddr = 100, userState = 0\<rparr>"

definition runtime1 :: "nat runtime" where
  "runtime1 = \<lparr>nextAddr = 101, userState = 1\<rparr>"

definition runtime2 :: "nat runtime" where
  "runtime2 = \<lparr>nextAddr = 102, userState = 2\<rparr>"

section \<open>The direct flavor: the hook \<^verbatim>\<open>useSelector\<close>\<close>

text \<open>
  What a selector throws is an error object with a message and a stack. A selector is a
  function of the state of the store that returns the selected state or throws.
\<close>

record js_exception =
  message :: string
  stack :: string

type_synonym selector = "jsval \<Rightarrow> js_exception + jsval"

text \<open>
  The references and the reducer state the hook keeps across renders, and its
  subscription node. \<open>forceRenderCount\<close> is the state of \<^verbatim>\<open>useReducer(s => s + 1, 0)\<close>:
  each \<^verbatim>\<open>forceRender({})\<close> adds one and has the host render the component again. Of the
  node, the hook sees whether \<^verbatim>\<open>onStateChange\<close> is set to \<^verbatim>\<open>checkForUpdates\<close> and whether
  the node is subscribed upstream.
\<close>

record selector_hook =
  latestSubscriptionCallbackError :: "js_exception option"
  latestSelector :: selector
  latestSelectedState :: jsval
  forceRenderCount :: nat
  onStateChangeSet :: bool
  subscribed :: bool

definition newline :: char where
  "newline = CHR 0x0A"

definition correlationText :: string where
  "correlationText = ''The error may be correlated with this previous error:''"

text \<open>\<^verbatim>\<open>invariant(selector, ...)\<close>: a call without a selector throws.\<close>

definition requireSelector :: "selector option \<Rightarrow> js_error + selector" where
  "requireSelector selector' =
     (case selector' of
        None \<Rightarrow> Inl (Invariant_Violation ''You must pass a selector to useSelectors'' [])
      | Some sel \<Rightarrow> Inr sel)"

text \<open>
  The render phase: the \<^verbatim>\<open>try\<close> around \<^verbatim>\<open>selector(store.getState())\<close>. \<open>state\<close> is what
  \<^verbatim>\<open>store.getState()\<close> returns and \<open>slot\<close> is \<^verbatim>\<open>latestSubscriptionCallbackError.current\<close>.
\<close>

definition selectState :: "selector \<Rightarrow> jsval \<Rightarrow> js_exception option \<Rightarrow> js_error + jsval" where
  "selectState sel state slot =
     (case sel state of
        Inr selectedState \<Rightarrow> Inr selectedState
      | Inl err \<Rightarrow>
          Inl (Error
            (''An error occured while selecting the store state: '' @ message err @ ''.'' @
             (case slot of
                Some previous \<Rightarrow>
                  newline # correlationText @ newline # stack previous @
                  newline # newline # ''Original stack trace:''
              | None \<Rightarrow> []))))"

definition useSelector_render ::
  "selector option \<Rightarrow> jsval \<Rightarrow> js_exception option \<Rightarrow> js_error + jsval" where
  "useSelector_render selector' state slot =
     (case requireSelector selector' of
        Inl e \<Rightarrow> Inl e
      | Inr sel \<Rightarrow> selectState sel state slot)"

text \<open>
  The first render creates the references: \<^verbatim>\<open>useRef()\<close>, \<^verbatim>\<open>useRef(selector)\<close>,
  \<^verbatim>\<open>useRef(selectedState)\<close>; nothing is subscribed yet.
\<close>

definition useSelector_mount :: "selector option \<Rightarrow> jsval \<Rightarrow> js_error + jsval \<times> selector_hook" where
  "useSelector_mount selector' state =
     (case requireSelector selector' of
        Inl e \<Rightarrow> Inl e
      | Inr sel \<Rightarrow>
          (case selectState sel state None of
             Inl e \<Rightarrow> Inl e
           | Inr selectedState \<Rightarrow>
               Inr (selectedState,
                    \<lparr>latestSubscriptionCallbackError = None,
                     latestSelector = sel,
                     latestSelectedState = selectedState,
                     forceRenderCount = 0,
                     onStateChangeSet = False,
                     subscribed = False\<rparr>)))"

text \<open>A later render reads the slot of the hook.\<close>

definition useSelector_rerender :: "selector option \<Rightarrow> jsval \<Rightarrow> selector_hook \<Rightarrow> js_error + jsval" where
  "useSelector_rerender selector' state h =
     useSelector_render selector' state (latestSubscriptionCallbackError h)"

text \<open>The first layout effect, run at every commit.\<close>

definition effect_latest :: "selector \<Rightarrow> jsval \<Rightarrow> selector_hook \<Rightarrow> selector_hook" where
  "effect_latest sel selectedState h =
     h\<lparr>latestSelector := sel, latestSelectedState := selectedState,
       latestSubscriptionCallbackError := None\<rparr>"

definition checkForUpdates :: "jsval \<Rightarrow> selector_hook \<Rightarrow> selector_hook" where
  "checkForUpdates state h =
     (case latestSelector h state of
        Inr newSelectedState \<Rightarrow>
          if shallowEqual newSelectedState (latestSelectedState h) then h
          else h\<lparr>latestSelectedState := newSelectedState,
                 forceRenderCount := Suc (forceRenderCount h)\<rparr>
      | Inl err \<Rightarrow>
          h\<lparr>latestSubscriptionCallbackError := Some err,
            forceRenderCount := Suc (forceRenderCount h)\<rparr>)"

text \<open>
  Modelled from the spec: \<^verbatim>\<open>utils/Subscription\<close> is imported by the sources but is not
  among them. The specification (4.2): \<^verbatim>\<open>trySubscribe\<close> is a no-op on a subscribed node and
  otherwise registers upstream, synchronously, a listener that calls the node's own notify
  callback if it is set; \<^verbatim>\<open>tryUnsubscribe\<close> detaches the node. The hook's node has no
  children.
\<close>

definition subscription_trySubscribe :: "selector_hook \<Rightarrow> selector_hook" where
  "subscription_trySubscribe h = (if subscribed h then h else h\<lparr>subscribed := True\<rparr>)"

definition subscription_tryUnsubscribe :: "selector_hook \<Rightarrow> selector_hook" where
  "subscription_tryUnsubscribe h = (if subscribed h then h\<lparr>subscribed := False\<rparr> else h)"

text \<open>
  Modelled from the spec: the listener of \<^verbatim>\<open>utils/Subscription\<close>, as above. The store has
  changed to \<open>state\<close> and notifies: a subscribed node calls its own notify callback.
\<close>

definition storeChanged :: "jsval \<Rightarrow> selector_hook \<Rightarrow> selector_hook" where
  "storeChanged state h =
     (if subscribed h \<and> onStateChangeSet h then checkForUpdates state h else h)"

text \<open>
  The second layout effect, run at the commit of the first render and whenever the store
  or the subscription changes; \<open>state\<close> is the state of the store at that moment.
\<close>

definition effect_subscribe :: "jsval \<Rightarrow> selector_hook \<Rightarrow> selector_hook" where
  "effect_subscribe state h =
     checkForUpdates state (subscription_trySubscribe (h\<lparr>onStateChangeSet := True\<rparr>))"

definition effect_cleanup :: "selector_hook \<Rightarrow> selector_hook" where
  "effect_cleanup h = subscription_tryUnsubscribe h"

text \<open>
  A commit in which the second effect runs: both effects, in order. It is the commit of
  the first render, and any later commit for which the store or the subscription has
  changed.
\<close>

definition commit_effects :: "selector \<Rightarrow> jsval \<Rightarrow> jsval \<Rightarrow> selector_hook \<Rightarrow> selector_hook" where
  "commit_effects sel selectedState state h =
     effect_subscribe state (effect_latest sel selectedState h)"

text \<open>
  Modelled from the spec: \<^verbatim>\<open>new Subscription(store, contextSub)\<close> of
  \<^verbatim>\<open>utils/Subscription\<close>, which is not among the sources. The specification (4.2,
  \<^verbatim>\<open>construct(upstream)\<close>): no subscription occurs yet; the own notify callback is set
  after construction.
\<close>

definition newSubscription :: "selector_hook \<Rightarrow> selector_hook" where
  "newSubscription h = h\<lparr>onStateChangeSet := False, subscribed := False\<rparr>"

text \<open>
  A later commit for which the store or the subscription has changed: the cleanup of the
  previous run of the second effect detaches the old node, the \<^verbatim>\<open>useMemo\<close> of the render
  has made a new node, and both effects run.
\<close>

definition commit_resubscribe :: "selector \<Rightarrow> jsval \<Rightarrow> jsval \<Rightarrow> selector_hook \<Rightarrow> selector_hook" where
  "commit_resubscribe sel selectedState state h =
     commit_effects sel selectedState state (newSubscription (effect_cleanup h))"

text \<open>
  The life of a mounted hook: render passes, each with the selector of that render and
  the state the store holds then, committed when the selector returns; and runs of
  \<^verbatim>\<open>checkForUpdates\<close> outside rendering, each with the state the store holds then.
\<close>

datatype hook_event = Render selector jsval | Check jsval

fun hook_step :: "hook_event \<Rightarrow> selector_hook \<Rightarrow> selector_hook" where
  "hook_step (Render sel state) h =
     (case useSelector_rerender (Some sel) state h of
        Inl e \<Rightarrow> h
      | Inr selectedState \<Rightarrow> effect_latest sel selectedState h)"
| "hook_step (Check state) h = checkForUpdates state h"

definition hook_run :: "hook_event list \<Rightarrow> selector_hook \<Rightarrow> selector_hook" where
  "hook_run evs h = fold hook_step evs h"

text \<open>
  The words of the specification (4.5), on the history (latest event first): the selector of the last
  render pass that succeeded, and the background failure recorded since the last render
  pass that succeeded, if any. \<open>h0\<close> is the hook at the start of the history.
\<close>

fun committedSelector :: "selector_hook \<Rightarrow> hook_event list \<Rightarrow> selector" where
  "committedSelector h0 [] = latestSelector h0"
| "committedSelector h0 (Render sel state # earlier) =
     (case sel state of Inr v \<Rightarrow> sel | Inl e \<Rightarrow> committedSelector h0 earlier)"
| "committedSelector h0 (Check state # earlier) = committedSelector h0 earlier"

fun recordedSinceLastSuccess :: "selector_hook \<Rightarrow> hook_event list \<Rightarrow> js_exception option" where
  "recordedSinceLastSuccess h0 [] = latestSubscriptionCallbackError h0"
| "recordedSinceLastSuccess h0 (Render sel state # earlier) =
     (case sel state of Inr v \<Rightarrow> None | Inl e \<Rightarrow> recordedSinceLastSuccess h0 earlier)"
| "recordedSinceLastSuccess h0 (Check state # earlier) =
     (case committedSelector h0 earlier state of
        Inl e \<Rightarrow> Some e
      | Inr v \<Rightarrow> recordedSinceLastSuccess h0 earlier)"

subsection \<open>Concrete hooks\<close>

text \<open>
  The selector \<^verbatim>\<open>s => s.count\<close> on a store that goes from \<^verbatim>\<open>{count: 0}\<close> to
  \<^verbatim>\<open>{count: 1}\<close>; a selector on a numeric state that throws \<^verbatim>\<open>new Error('foo')\<close> when the
  count is positive; and the selector \<^verbatim>\<open>s => ({count: s.count})\<close>, which returns a new
  object at every call.
\<close>

definition countSelector :: selector where
  "countSelector = (\<lambda>s. Inr (case map_of (ownProps s) ''count'' of Some v \<Rightarrow> v | None \<Rightarrow> Undefined))"

definition countZero :: jsval where
  "countZero = Object 1 Plain [(''count'', Number 0)]"

definition countOne :: jsval where
  "countOne = Object 2 Plain [(''count'', Number 1)]"

definition countHook :: selector_hook where
  "countHook =
     \<lparr>latestSubscriptionCallbackError = None, latestSelector = countSelector,
      latestSelectedState = Number 0, forceRenderCount = 0,
      onStateChangeSet = False, subscribed = False\<rparr>"

definition fooError :: js_exception where
  "fooError = \<lparr>message = ''foo'', stack = ''Error: foo''\<rparr>"

definition positiveThrows :: selector where
  "positiveThrows =
     (\<lambda>s. case s of Number n \<Rightarrow> if n > 0 then Inl fooError else Inr (Number n) | _ \<Rightarrow> Inr s)"

definition subscribedHook :: selector_hook where
  "subscribedHook =
     \<lparr>latestSubscriptionCallbackError = None, latestSelector = positiveThrows,
      latestSelectedState = Number 0, forceRenderCount = 0,
      onStateChangeSet = True, subscribed = True\<rparr>"

definition pickCount :: selector where
  "pickCount =
     (\<lambda>s. case s of
        Object a k fs \<Rightarrow>
          Inr (Object (a + 100) Plain
                 [(''count'', case map_of fs ''count'' of Some v \<Rightarrow> v | None \<Rightarrow> Undefined)])
      | _ \<Rightarrow> Inr Undefined)"

definition stateA :: jsval where
  "stateA = Object 1 Plain [(''count'', Number 0), (''other'', Number 0)]"

definition stateB :: jsval where
  "stateB = Object 2 Plain [(''count'', Number 0), (''other'', Number 1)]"

definition pickHook :: selector_hook where
  "pickHook =
     \<lparr>latestSubscriptionCallbackError = None, latestSelector = pickCount,
      latestSelectedState = Object 101 Plain [(''count'', Number 0)], forceRenderCount = 0,
      onStateChangeSet = True, subscribed = True\<rparr>"

text \<open>
  A hook that last committed the selection 7 with another selector, has forced three
  renders, holds a background failure and is still subscribed through its old node.
\<close>

definition countSeven :: jsval where
  "countSeven = Object 3 Plain [(''count'', Number 7)]"

definition staleHook :: selector_hook where
  "staleHook =
     \<lparr>latestSubscriptionCallbackError = Some fooError, latestSelector = positiveThrows,
      latestSelectedState = Number 7, forceRenderCount = 3,
      onStateChangeSet = True, subscribed = True\<rparr>"

definition stateC :: jsval where
  "stateC = Object 3 Plain [(''count'', Number 5), (''other'', Number 1)]"

section \<open>The subscription tree\<close>










section \<open>Properties of the declarative wrapper\<close>

subsection \<open>Subscribing and unsubscribing\<close>

lemma unsubscribe_handleChange: "unsubscribe (handleChange i) = unsubscribe i"
  by (simp add: handleChange_def setState_def getState_def)

lemma trySubscribe_twice: "trySubscribe cfg (trySubscribe cfg inst) = trySubscribe cfg inst"
proof (cases "shouldSubscribe cfg \<and> \<not> unsubTruthy (unsubscribe inst)")
  case True
  then have "unsubTruthy (unsubscribe (trySubscribe cfg inst))"
    by (simp add: trySubscribe_def subscribe_def unsubscribe_handleChange)
  then show ?thesis
    by (simp add: trySubscribe_def [of cfg "trySubscribe cfg inst"])
next
  case False
  then show ?thesis by (auto simp add: trySubscribe_def)
qed

lemma tryUnsubscribe_twice: "tryUnsubscribe (tryUnsubscribe inst) = tryUnsubscribe inst"
  by (cases "unsubscribe inst") (simp_all add: tryUnsubscribe_def)

text \<open>
  Claim C6. Calling \<^verbatim>\<open>trySubscribe\<close> twice in a row leaves the instance, its store
  included, exactly as calling it once does: the same subscribed flag and the same
  registered listeners. The same holds for \<^verbatim>\<open>tryUnsubscribe\<close>. This is for every
  instance in any state and every configuration.
\<close>

theorem subscription_management_idempotent:
  "trySubscribe cfg (trySubscribe cfg inst) = trySubscribe cfg inst \<and>
   isSubscribed (trySubscribe cfg (trySubscribe cfg inst)) = isSubscribed (trySubscribe cfg inst) \<and>
   listeners (store (trySubscribe cfg (trySubscribe cfg inst))) = listeners (store (trySubscribe cfg inst)) \<and>
   tryUnsubscribe (tryUnsubscribe inst) = tryUnsubscribe inst \<and>
   isSubscribed (tryUnsubscribe (tryUnsubscribe inst)) = isSubscribed (tryUnsubscribe inst) \<and>
   listeners (store (tryUnsubscribe (tryUnsubscribe inst))) = listeners (store (tryUnsubscribe inst))"
  by (simp add: trySubscribe_twice tryUnsubscribe_twice)

subsection \<open>After unmounting\<close>

lemma unsubTruthy_tryUnsubscribe: "\<not> unsubTruthy (unsubscribe (tryUnsubscribe inst))"
  by (cases "unsubscribe inst") (simp_all add: tryUnsubscribe_def)

lemma handleChange_unsubscribed: "\<not> unsubTruthy (unsubscribe i) \<Longrightarrow> handleChange i = i"
  by (simp add: handleChange_def)

lemma fold_handleChange_unsubscribed:
  "\<not> unsubTruthy (unsubscribe i) \<Longrightarrow>
   fold (\<lambda>(h, l) i. if l = iid i then handleChange i else i) ls i = i"
  by (induction ls) (auto simp add: handleChange_unsubscribed)

lemma dispatch_unsubscribed:
  "\<not> unsubTruthy (unsubscribe i) \<Longrightarrow> dispatch v i = i\<lparr>store := (store i)\<lparr>storeState := v\<rparr>\<rparr>"
  by (simp add: dispatch_def Let_def fold_handleChange_unsubscribed)

lemma run_notifications_unsubscribed:
  "\<not> unsubTruthy (unsubscribe i) \<Longrightarrow>
   unsubscribe (run cfg (map notification ns) i) = unsubscribe i \<and>
   updateQueue (run cfg (map notification ns) i) = updateQueue i \<and>
   getStateCalls (store (run cfg (map notification ns) i)) = getStateCalls (store i) \<and>
   listeners (store (run cfg (map notification ns) i)) = listeners (store i)"
proof (induction ns arbitrary: i)
  case Nil
  then show ?case by (simp add: run_def)
next
  case (Cons n ns)
  show ?case
  proof (cases n)
    case None
    with Cons.prems have "step cfg (notification n) i = i"
      by (simp add: handleChange_unsubscribed)
    with Cons show ?thesis by (simp add: run_def)
  next
    case (Some v)
    with Cons.prems have s: "step cfg (notification n) i = i\<lparr>store := (store i)\<lparr>storeState := v\<rparr>\<rparr>"
      by (simp add: dispatch_unsubscribed)
    have "\<not> unsubTruthy (unsubscribe (i\<lparr>store := (store i)\<lparr>storeState := v\<rparr>\<rparr>))"
      using Cons.prems by simp
    from Cons.IH [OF this] s show ?thesis by (simp add: run_def)
  qed
qed

text \<open>
  Claim C8. Once \<^verbatim>\<open>componentWillUnmount\<close> has run \<^verbatim>\<open>tryUnsubscribe\<close>, the change handler
  returns the instance as it is, and no sequence of store notifications (dispatches, or
  late calls of the handler by a pass already under way) reads the state of the store or
  schedules an update.
\<close>

theorem no_recomputation_after_unmount:
  "handleChange (componentWillUnmount inst) = componentWillUnmount inst \<and>
   updateQueue (run cfg (map notification ns) (componentWillUnmount inst)) =
     updateQueue (componentWillUnmount inst) \<and>
   getStateCalls (store (run cfg (map notification ns) (componentWillUnmount inst))) =
     getStateCalls (store (componentWillUnmount inst))"
  using run_notifications_unsubscribed [of "componentWillUnmount inst" cfg ns]
  by (simp add: componentWillUnmount_def unsubTruthy_tryUnsubscribe handleChange_unsubscribed)

subsection \<open>Without \<^verbatim>\<open>mapStateToProps\<close>\<close>

lemma connect_absent_shouldSubscribe:
  "connect wrapActionCreators None md mp opts nv = (cfg, nv') \<Longrightarrow> \<not> shouldSubscribe cfg"
  by (auto simp add: connect_def Let_def)

lemma constructor_unsubscribe:
  assumes "connect_constructor cfg dn self p ps cs rt = (Inr inst, rt')"
  shows "unsubscribe inst = Unset \<and> updateQueue inst = []"
  using assms
  by (auto simp add: connect_constructor_def updateState_def Let_def
      split: option.splits prod.splits sum.splits)

lemma step_never_subscribes:
  assumes "\<not> shouldSubscribe cfg" and "unsubscribe i = Unset"
  shows "unsubscribe (step cfg ev i) = Unset \<and>
         updateQueue (step cfg ev i) = updateQueue i \<and>
         listeners (store (step cfg ev i)) = listeners (store i) \<and>
         getStateCalls (store (step cfg ev i)) = getStateCalls (store i)"
proof -
  have u: "\<not> unsubTruthy (unsubscribe i)" using assms(2) by simp
  show ?thesis
  proof (cases ev)
    case Mount
    with assms show ?thesis by (simp add: componentDidMount_def trySubscribe_def)
  next
    case Unmount
    with assms show ?thesis by (simp add: componentWillUnmount_def tryUnsubscribe_def)
  next
    case (Dispatch v)
    with assms u show ?thesis by (simp add: dispatch_unsubscribed)
  next
    case LateNotification
    with assms u show ?thesis by (simp add: handleChange_unsubscribed)
  next
    case HotReload
    with assms show ?thesis by (simp add: trySubscribe_def)
  qed
qed

lemma run_never_subscribes:
  assumes "\<not> shouldSubscribe cfg" and "unsubscribe i = Unset"
  shows "unsubscribe (run cfg evs i) = Unset \<and>
         updateQueue (run cfg evs i) = updateQueue i \<and>
         listeners (store (run cfg evs i)) = listeners (store i) \<and>
         getStateCalls (store (run cfg evs i)) = getStateCalls (store i)"
  using assms(2)
proof (induction evs arbitrary: i)
  case Nil
  then show ?case by (simp add: run_def)
next
  case (Cons ev evs)
  from step_never_subscribes [OF assms(1) Cons.prems, of ev]
  have s: "unsubscribe (step cfg ev i) = Unset"
    "updateQueue (step cfg ev i) = updateQueue i"
    "listeners (store (step cfg ev i)) = listeners (store i)"
    "getStateCalls (store (step cfg ev i)) = getStateCalls (store i)" by simp_all
  from Cons.IH [OF s(1)] s show ?case by (simp add: run_def)
qed

text \<open>
  Claim C10. An instance of a wrapper created without \<^verbatim>\<open>mapStateToProps\<close> is never
  subscribed: whatever happens to it (mounting, dispatches, late notifications, the
  \<^verbatim>\<open>trySubscribe\<close> of a hot reload, unmounting), \<^verbatim>\<open>isSubscribed()\<close> stays false, the
  listeners of the store stay those it had at construction, no update is scheduled and
  the state of the store is not read.
\<close>

theorem no_subscription_without_mapStateToProps:
  assumes "connect wrapActionCreators None mapDispatchToProps mergeProps options nextVersion = (cfg, nextVersion')"
    and "connect_constructor cfg dn self p propsStore contextStore rt = (Inr inst, rt')"
  shows "\<not> isSubscribed (run cfg evs inst) \<and>
         listeners (store (run cfg evs inst)) = listeners (store inst) \<and>
         updateQueue (run cfg evs inst) = [] \<and>
         getStateCalls (store (run cfg evs inst)) = getStateCalls (store inst)"
  using run_never_subscribes [OF connect_absent_shouldSubscribe [OF assms(1)], of inst evs]
    constructor_unsubscribe [OF assms(2)]
  by (simp add: isSubscribed_def)

lemma example_connect:
  "connect (\<lambda>_. defaultMapDispatchToProps) None MD_absent None None 0 = (exampleConfig, 1)"
  by (simp add: connect_def exampleConfig_def defaultMapStateToProps_def
      defaultMapDispatchToProps_def)

lemma example_constructor:
  "connect_constructor exampleConfig ''Connect(A)'' 1 exampleProps None (Some exampleStore)
     exampleRuntime = (Inr exampleInstance, exampleRuntime\<lparr>nextAddr := 103\<rparr>)"
  by (simp add: connect_constructor_def exampleConfig_def computeStateProps_def
      computeDispatchProps_def computeNextState_def updateState_def orThisProps_def
      defaultMapStateToProps_def defaultMapDispatchToProps_def defaultMergeProps_def
      newObject_def getState_def invariant_def exampleRuntime_def exampleStore_def
      exampleProps_def exampleInstance_def spread_def arg_def)

text \<open>The default wrapper on the concrete store, through a mount, a dispatch, a hot reload and an unmount.\<close>

theorem no_subscription_without_mapStateToProps_witness:
  "connect (\<lambda>_. defaultMapDispatchToProps) None MD_absent None None 0 = (exampleConfig, 1) \<and>
   connect_constructor exampleConfig ''Connect(A)'' 1 exampleProps None (Some exampleStore)
     exampleRuntime = (Inr exampleInstance, exampleRuntime\<lparr>nextAddr := 103\<rparr>) \<and>
   \<not> isSubscribed
       (run exampleConfig [Mount, Dispatch (Number 1), HotReload, Unmount] exampleInstance) \<and>
   listeners (store (run exampleConfig [Mount, Dispatch (Number 1), HotReload, Unmount]
       exampleInstance)) = [(0, 7)] \<and>
   updateQueue (run exampleConfig [Mount, Dispatch (Number 1), HotReload, Unmount]
       exampleInstance) = []"
  using no_subscription_without_mapStateToProps [OF example_connect example_constructor,
      of "[Mount, Dispatch (Number 1), HotReload, Unmount]"]
    example_connect example_constructor
  by (simp add: exampleInstance_def exampleStore_def)

subsection \<open>Stages that do not return a plain object\<close>

lemma stage_error_reaches_callers:
  "fst (computeStateProps cfg (store inst) (orThisProps p inst) rt) = Inl e \<Longrightarrow>
     fst (updateStateProps cfg p inst rt) = Inl e"
  "fst (computeDispatchProps cfg (store inst) (orThisProps p inst) rt) = Inl e \<Longrightarrow>
     fst (updateDispatchProps cfg p inst rt) = Inl e"
  "fst (computeNextState cfg (stateProps inst) (dispatchProps inst) (orThisProps p inst) rt) = Inl e \<Longrightarrow>
     fst (updateState cfg p inst rt) = Inl e"
  by (auto simp add: updateStateProps_def updateDispatchProps_def updateState_def
      split: prod.splits sum.splits)

text \<open>
  Claim C7. When the state-derivation, dispatch-derivation or merge function returns a
  value \<open>r\<close> that is not a plain object, the computation returns the error of
  \<^verbatim>\<open>invariant\<close> to its caller; the message of that error starts with the name of the
  stage and contains \<open>r\<close> converted to a string.
\<close>

theorem non_mapping_stage_result_is_fatal:
  assumes "\<not> isPlainObject r"
  shows "((if shouldUpdateStateProps cfg
           then body (finalMapStateToProps cfg) [storeState st, p] rt
           else body (finalMapStateToProps cfg) [storeState st] rt) = (r, rt1) \<longrightarrow>
          fst (computeStateProps cfg st p rt) =
            Inl (Invariant_Violation ''`mapStateToProps` must return an object. Instead received %s.'' [r]))
       \<and> ((if shouldUpdateDispatchProps cfg
           then body (finalMapDispatchToProps cfg) [dispatchFn st, p] rt
           else body (finalMapDispatchToProps cfg) [dispatchFn st] rt) = (r, rt1) \<longrightarrow>
          fst (computeDispatchProps cfg st p rt) =
            Inl (Invariant_Violation ''`mapDispatchToProps` must return an object. Instead received %s.'' [r]))
       \<and> (body (finalMergeProps cfg) [sp, dp, p] rt = (r, rt1) \<longrightarrow>
          fst (computeNextState cfg sp dp p rt) =
            Inl (Invariant_Violation ''`mergeProps` must return an object. Instead received %s.'' [r]))
       \<and> errorMessage toString (Invariant_Violation ''`mapStateToProps` must return an object. Instead received %s.'' [r])
           = ''`mapStateToProps` must return an object. Instead received '' @ toString r @ ''.''
       \<and> errorMessage toString (Invariant_Violation ''`mapDispatchToProps` must return an object. Instead received %s.'' [r])
           = ''`mapDispatchToProps` must return an object. Instead received '' @ toString r @ ''.''
       \<and> errorMessage toString (Invariant_Violation ''`mergeProps` must return an object. Instead received %s.'' [r])
           = ''`mergeProps` must return an object. Instead received '' @ toString r @ ''.''"
  using assms
  by (simp add: computeStateProps_def computeDispatchProps_def computeNextState_def
      getState_def invariant_def)

text \<open>Stages that return the number 3.\<close>

theorem non_mapping_stage_result_is_fatal_witness:
  "\<not> isPlainObject (Number 3) \<and>
   fst (computeStateProps badConfig exampleStore exampleProps exampleRuntime) =
     Inl (Invariant_Violation ''`mapStateToProps` must return an object. Instead received %s.'' [Number 3]) \<and>
   fst (computeDispatchProps badConfig exampleStore exampleProps exampleRuntime) =
     Inl (Invariant_Violation ''`mapDispatchToProps` must return an object. Instead received %s.'' [Number 3]) \<and>
   fst (computeNextState badConfig Undefined Undefined exampleProps exampleRuntime) =
     Inl (Invariant_Violation ''`mergeProps` must return an object. Instead received %s.'' [Number 3]) \<and>
   errorMessage exampleToString (Invariant_Violation ''`mergeProps` must return an object. Instead received %s.'' [Number 3]) =
     ''`mergeProps` must return an object. Instead received 3.''"
  using non_mapping_stage_result_is_fatal [of "Number 3" badConfig exampleStore exampleProps
      exampleRuntime exampleRuntime Undefined Undefined exampleToString]
  by (simp add: badConfig_def numberThree_def)

section \<open>Properties of the pure final-props selector\<close>

lemma pureSelector_same_refs:
  assumes "body (getOwnProps_opt opts) [state, p, d] rt = (nextOwn, rt1)"
    and "body (getState_opt opts) [state, p, d] rt1 = (nextState', rt2)"
    and "body (getDispatch_opt opts) [state, p, d] rt2 = (nextDispatch, rt3)"
    and "strictEq (lastOwn c) nextOwn" "strictEq (lastState c) nextState'"
      "strictEq (lastDispatch c) nextDispatch"
  shows "pureSelector opts state p d c rt =
           (lastResult c,
            c\<lparr>lastOwn := nextOwn, lastState := nextState', lastDispatch := nextDispatch\<rparr>, rt3)"
  using assms by (simp add: pureSelector_def)

lemma pureSelector_changed_refs:
  assumes "body (getOwnProps_opt opts) [state, p, d] rt = (nextOwn, rt1)"
    and "body (getState_opt opts) [state, p, d] rt1 = (nextState', rt2)"
    and "body (getDispatch_opt opts) [state, p, d] rt2 = (nextDispatch, rt3)"
    and "body (mergeProps_opt opts) [nextState', nextDispatch, nextOwn] rt3 = (nextMerged, rt4)"
    and "\<not> (strictEq (lastOwn c) nextOwn \<and> strictEq (lastState c) nextState' \<and>
      strictEq (lastDispatch c) nextDispatch)"
  shows "pureSelector opts state p d c rt =
           ((if \<not> truthy (lastMerged c) \<or> \<not> shallowEqual (lastMerged c) nextMerged
             then nextMerged else lastResult c),
            c\<lparr>lastResult := (if \<not> truthy (lastMerged c) \<or> \<not> shallowEqual (lastMerged c) nextMerged
                              then nextMerged else lastResult c),
              lastMerged := nextMerged,
              lastOwn := nextOwn, lastState := nextState', lastDispatch := nextDispatch\<rparr>, rt4)"
  using assms by (auto simp add: pureSelector_def)

lemma shallowEqual_falsy:
  assumes "shallowEqual a b" and "\<not> truthy a \<or> \<not> truthy b"
  shows "a = b"
  using assms by (cases a; cases b) (auto simp add: shallowEqual_def)

lemma agrees_initial: "agrees createPureFinalPropsSelector noInvocation"
  by (simp add: createPureFinalPropsSelector_def noInvocation_def)

lemma twoTierSelector_simulates:
  assumes "agrees c hist"
  shows "\<exists>r c1 hist1 rt1.
           pureSelector opts state p d c rt = (r, c1, rt1) \<and>
           twoTierSelector opts state p d hist rt = (r, hist1, rt1) \<and> agrees c1 hist1"
proof -
  obtain pOwn pState pDispatch pMerged pReturned
    where hist: "hist = History (pOwn, pState, pDispatch) pMerged pReturned"
    by (cases hist) auto
  obtain nextOwn rt1 where o: "body (getOwnProps_opt opts) [state, p, d] rt = (nextOwn, rt1)"
    by (cases "body (getOwnProps_opt opts) [state, p, d] rt")
  obtain nextState' rt2 where s: "body (getState_opt opts) [state, p, d] rt1 = (nextState', rt2)"
    by (cases "body (getState_opt opts) [state, p, d] rt1")
  obtain nextDispatch rt3
    where dp: "body (getDispatch_opt opts) [state, p, d] rt2 = (nextDispatch, rt3)"
    by (cases "body (getDispatch_opt opts) [state, p, d] rt2")
  obtain nextMerged rt4
    where m: "body (mergeProps_opt opts) [nextState', nextDispatch, nextOwn] rt3 = (nextMerged, rt4)"
    by (cases "body (mergeProps_opt opts) [nextState', nextDispatch, nextOwn] rt3")
  from assms have ag: "agrees c (History (pOwn, pState, pDispatch) pMerged pReturned)"
    unfolding hist .
  from ag [unfolded agrees.simps] have l: "lastOwn c = pOwn" "lastState c = pState" "lastDispatch c = pDispatch"
    "lastResult c = pReturned"
    "lastMerged c = (case pMerged of None \<Rightarrow> Undefined | Some previous \<Rightarrow> previous)"
    "truthy (lastMerged c) \<or> lastResult c = lastMerged c"
    by blast+
  show ?thesis
  proof (cases "strictEq (lastOwn c) nextOwn \<and> strictEq (lastState c) nextState' \<and>
      strictEq (lastDispatch c) nextDispatch")
    case True
    have "twoTierSelector opts state p d hist rt =
        (pReturned, History (nextOwn, nextState', nextDispatch) pMerged pReturned, rt3)"
      using True l(1-3) o s dp by (simp add: twoTierSelector_def hist)
    with pureSelector_same_refs [OF o s dp, of c] True l show ?thesis by simp
  next
    case False
    define r where "r = (if \<not> truthy (lastMerged c) \<or> \<not> shallowEqual (lastMerged c) nextMerged
                         then nextMerged else lastResult c)"
    have ne: "\<not> (strictEq pOwn nextOwn \<and> strictEq pState nextState' \<and>
        strictEq pDispatch nextDispatch)"
      using False l(1-3) by simp
    have same: "(case pMerged of None \<Rightarrow> nextMerged
                 | Some previous \<Rightarrow> if shallowEqual previous nextMerged then pReturned else nextMerged) = r"
    proof (cases pMerged)
      case None
      with l(5) show ?thesis by (simp add: r_def)
    next
      case (Some previous)
      with l(5) have lm: "lastMerged c = previous" by simp
      show ?thesis
      proof (cases "truthy previous")
        case True
        with Some lm l(4) show ?thesis by (simp add: r_def)
      next
        case nt: False
        with lm l(6) have res: "lastResult c = previous" by simp
        show ?thesis
        proof (cases "shallowEqual previous nextMerged")
          case True
          with nt have "previous = nextMerged" using shallowEqual_falsy by blast
          with Some lm res l(4) nt show ?thesis by (simp add: r_def)
        next
          case False
          with Some lm show ?thesis by (simp add: r_def)
        qed
      qed
    qed
    have code: "pureSelector opts state p d c rt =
        (r, c\<lparr>lastResult := r, lastMerged := nextMerged, lastOwn := nextOwn,
               lastState := nextState', lastDispatch := nextDispatch\<rparr>, rt4)"
      using pureSelector_changed_refs [OF o s dp m False] unfolding r_def .
    have "twoTierSelector opts state p d hist rt =
        (case pMerged of None \<Rightarrow> nextMerged
                 | Some previous \<Rightarrow> if shallowEqual previous nextMerged then pReturned else nextMerged,
         History (nextOwn, nextState', nextDispatch) (Some nextMerged)
           (case pMerged of None \<Rightarrow> nextMerged
                 | Some previous \<Rightarrow> if shallowEqual previous nextMerged then pReturned else nextMerged),
         rt4)"
      by (simp add: twoTierSelector_def hist o s dp m ne Let_def)
    then have spec: "twoTierSelector opts state p d hist rt =
        (r, History (nextOwn, nextState', nextDispatch) (Some nextMerged) r, rt4)"
      unfolding same .
    have keeps: "truthy nextMerged \<or> r = nextMerged"
      using shallowEqual_falsy [of "lastMerged c" nextMerged] by (auto simp add: r_def)
    from code spec keeps show ?thesis by simp
  qed
qed

lemma twoTierSelector_results_agree:
  "agrees c hist \<Longrightarrow>
   pureSelector_results opts calls (c, rt) = twoTierSelector_results opts calls (hist, rt)"
proof (induction calls arbitrary: c hist rt)
  case Nil
  then show ?case by simp
next
  case (Cons a calls)
  obtain state p d where a: "a = (state, p, d)" by (cases a)
  from twoTierSelector_simulates [OF Cons.prems, of opts state p d rt]
  obtain r c1 hist1 rt1 where
    st: "pureSelector opts state p d c rt = (r, c1, rt1)"
      "twoTierSelector opts state p d hist rt = (r, hist1, rt1)" "agrees c1 hist1"
    by blast
  from Cons.IH [OF st(3), of rt1] st(1,2) a show ?case by simp
qed

text \<open>
  Claim C3. On every sequence of invocations, from the first on, the pure selector
  returns at each invocation the value, and leaves the runtime, that the two-tier
  composition in the words of the specification does. So at every invocation after the
  first the merge, which may do anything to the runtime, runs only if one of the three
  inputs is not \<^verbatim>\<open>===\<close> the input of the previous invocation; and when it runs, the
  value returned is the new merged value if that is not shallow-equal to the value the
  merge returned the time before, and the value the previous invocation returned
  otherwise.
\<close>

theorem pure_selector_two_tier:
  "pureSelector_results opts calls (createPureFinalPropsSelector, rt0) =
   twoTierSelector_results opts calls (noInvocation, rt0)"
  using agrees_initial by (rule twoTierSelector_results_agree)

text \<open>
  The own-props stage of the pure mode hands on the previous reference for props
  shallow-equal to the previous ones: this is how a stage upstream turns shallow
  equality into identity.
\<close>

lemma pureOwnPropsSelector_reuses_reference:
  "truthy lastProps \<Longrightarrow> shallowEqual lastProps nextProps \<Longrightarrow>
   fst (pureOwnPropsSelector u nextProps (lastProps, lastResult')) = lastResult'"
  by (simp add: pureOwnPropsSelector_def)

lemma pureSelector_records:
  assumes "body (getOwnProps_opt opts) [state, p, d] rt = (nextOwn, rt1)"
    and "body (getState_opt opts) [state, p, d] rt1 = (nextState', rt2)"
    and "body (getDispatch_opt opts) [state, p, d] rt2 = (nextDispatch, rt3)"
    and "pureSelector opts state p d c rt = (r, c1, rt')"
  shows "lastOwn c1 = nextOwn \<and> lastState c1 = nextState' \<and> lastDispatch c1 = nextDispatch \<and>
         lastResult c1 = r"
  using assms by (auto simp add: pureSelector_def Let_def split: prod.splits if_splits)

text \<open>
  Claim C2, amended. If in two successive calls of the pure selector each of the three
  stages returns the second time a value \<^verbatim>\<open>===\<close> the one it returned the first time, the
  second call returns what the first returned and ends in the runtime the three stages
  left: the merge has not run.
\<close>

theorem pure_selector_stable_on_identical_inputs:
  assumes "body (getOwnProps_opt opts) [s1, p1, d1] rta = (own1, ra1)"
    and "body (getState_opt opts) [s1, p1, d1] ra1 = (st1, ra2)"
    and "body (getDispatch_opt opts) [s1, p1, d1] ra2 = (dp1, ra3)"
    and "pureSelector opts s1 p1 d1 c0 rta = (r1, c1, rtb)"
    and "body (getOwnProps_opt opts) [s2, p2, d2] rtb = (own2, rb1)"
    and "body (getState_opt opts) [s2, p2, d2] rb1 = (st2, rb2)"
    and "body (getDispatch_opt opts) [s2, p2, d2] rb2 = (dp2, rb3)"
    and "strictEq own1 own2" and "strictEq st1 st2" and "strictEq dp1 dp2"
  shows "fst (pureSelector opts s2 p2 d2 c1 rtb) = r1 \<and>
         snd (snd (pureSelector opts s2 p2 d2 c1 rtb)) = rb3"
proof -
  from pureSelector_records [OF assms(1-4)]
  have l: "lastOwn c1 = own1" "lastState c1 = st1" "lastDispatch c1 = dp1" "lastResult c1 = r1"
    by simp_all
  from pureSelector_same_refs [OF assms(5-7), of c1] assms(8-10) l
  show ?thesis by simp
qed

subsection \<open>The concrete pipeline\<close>

lemmas example_defs = exampleOptions_def countingMerge_def defaultMergeProps_def
  impureOwnPropsSelector_def exampleState_def propsA_def propsB_def dispatchProps5_def
  merged100_def merged101_def closureAfterA_def runtime0_def runtime1_def runtime2_def
  createPureFinalPropsSelector_def newObject_def spread_def arg_def

lemma example_first_call:
  "pureSelector exampleOptions exampleState propsA (Function 3) createPureFinalPropsSelector
     runtime0 = (merged100, closureAfterA, runtime1)"
  by (simp add: pureSelector_def example_defs)

lemma example_stagesA:
  "body (getOwnProps_opt exampleOptions) [exampleState, propsA, Function 3] runtime0 = (propsA, runtime0)"
  "body (getState_opt exampleOptions) [exampleState, propsA, Function 3] runtime0 = (exampleState, runtime0)"
  "body (getDispatch_opt exampleOptions) [exampleState, propsA, Function 3] runtime0 = (dispatchProps5, runtime0)"
  "body (getOwnProps_opt exampleOptions) [exampleState, propsA, Function 3] runtime1 = (propsA, runtime1)"
  "body (getState_opt exampleOptions) [exampleState, propsA, Function 3] runtime1 = (exampleState, runtime1)"
  "body (getDispatch_opt exampleOptions) [exampleState, propsA, Function 3] runtime1 = (dispatchProps5, runtime1)"
  by (simp_all add: example_defs)

text \<open>
  Three invocations, with props A, then props B at another address and with the same
  content, then props B again. The merge runs at the first two and not at the third (its
  counter in the runtime goes 1, 2, 2); the second merged value is shallow-equal to the
  first, and the first result is returned all three times.
\<close>

theorem pure_selector_two_tier_witness:
  "pureSelector_results exampleOptions
     [(exampleState, propsA, Function 3), (exampleState, propsB, Function 3),
      (exampleState, propsB, Function 3)]
     (createPureFinalPropsSelector, runtime0) =
   [(merged100, runtime1), (merged100, runtime2), (merged100, runtime2)]"
  by (subst pure_selector_two_tier)
     (simp add: twoTierSelector_def Let_def noInvocation_def shallowEqual_def exampleOptions_def
        countingMerge_def defaultMergeProps_def impureOwnPropsSelector_def exampleState_def
        propsA_def propsB_def dispatchProps5_def merged100_def runtime0_def runtime1_def
        runtime2_def newObject_def spread_def arg_def)

text \<open>After one call, a call with the very same props: the merge counter stays at 1.\<close>

theorem pure_selector_stable_on_identical_inputs_witness:
  "strictEq propsA propsA \<and> strictEq exampleState exampleState \<and>
   strictEq dispatchProps5 dispatchProps5 \<and>
   pureSelector exampleOptions exampleState propsA (Function 3) createPureFinalPropsSelector
     runtime0 = (merged100, closureAfterA, runtime1) \<and>
   fst (pureSelector exampleOptions exampleState propsA (Function 3) closureAfterA runtime1) =
     merged100 \<and>
   snd (snd (pureSelector exampleOptions exampleState propsA (Function 3) closureAfterA runtime1)) =
     runtime1"
proof -
  have s: "strictEq propsA propsA" "strictEq exampleState exampleState"
    "strictEq dispatchProps5 dispatchProps5"
    by (simp_all add: propsA_def exampleState_def dispatchProps5_def)
  from pure_selector_stable_on_identical_inputs [OF example_stagesA(1-3) example_first_call
      example_stagesA(4-6) s] s example_first_call
  show ?thesis by simp
qed

text \<open>
  Claim C2 as stated fails: the second call gets props shallow-equal to the first at
  another address, the state and the dispatch object are the same, and the merge runs a
  second time.
\<close>

theorem shallow_equal_inputs_still_merge_counterexample:
  "pureSelector exampleOptions exampleState propsA (Function 3) createPureFinalPropsSelector
     runtime0 = (merged100, closureAfterA, runtime1) \<and>
   fst (body (getOwnProps_opt exampleOptions) [exampleState, propsA, Function 3] runtime0) = propsA \<and>
   fst (body (getOwnProps_opt exampleOptions) [exampleState, propsB, Function 3] runtime1) = propsB \<and>
   fst (body (getState_opt exampleOptions) [exampleState, propsA, Function 3] runtime0) = exampleState \<and>
   fst (body (getState_opt exampleOptions) [exampleState, propsB, Function 3] runtime1) = exampleState \<and>
   fst (body (getDispatch_opt exampleOptions) [exampleState, propsA, Function 3] runtime0) = dispatchProps5 \<and>
   fst (body (getDispatch_opt exampleOptions) [exampleState, propsB, Function 3] runtime1) = dispatchProps5 \<and>
   shallowEqual propsA propsB \<and> shallowEqual exampleState exampleState \<and>
   shallowEqual dispatchProps5 dispatchProps5 \<and>
   userState runtime1 = 1 \<and>
   userState (snd (snd (pureSelector exampleOptions exampleState propsB (Function 3)
     closureAfterA runtime1))) = 2"
  by (simp add: pureSelector_def example_defs shallowEqual_def)

section \<open>Properties of the hook\<close>

subsection \<open>The slot and the history\<close>

lemma hook_run_snoc: "hook_run (evs @ [e]) h = hook_step e (hook_run evs h)"
  by (simp add: hook_run_def)

lemma render_throws:
  "sel state = Inl err \<Longrightarrow> useSelector_rerender (Some sel) state h = 
     Inl (Error (''An error occured while selecting the store state: '' @ message err @ ''.'' @
             (case latestSubscriptionCallbackError h of
                Some previous \<Rightarrow>
                  newline # correlationText @ newline # stack previous @
                  newline # newline # ''Original stack trace:''
              | None \<Rightarrow> [])))"
  by (simp add: useSelector_rerender_def useSelector_render_def requireSelector_def selectState_def)

lemma render_returns:
  "sel state = Inr v \<Longrightarrow> useSelector_rerender (Some sel) state h = Inr v"
  by (simp add: useSelector_rerender_def useSelector_render_def requireSelector_def selectState_def)

lemma hook_history:
  "latestSubscriptionCallbackError (hook_run evs h0) = recordedSinceLastSuccess h0 (rev evs) \<and>
   latestSelector (hook_run evs h0) = committedSelector h0 (rev evs)"
proof (induction evs rule: rev_induct)
  case Nil
  then show ?case by (simp add: hook_run_def)
next
  case (snoc e evs)
  show ?case
  proof (cases e)
    case (Render sel state)
    show ?thesis
    proof (cases "sel state")
      case (Inl err)
      with Render snoc show ?thesis
        by (simp add: hook_run_snoc render_throws)
    next
      case (Inr v)
      with Render snoc show ?thesis
        by (simp add: hook_run_snoc render_returns effect_latest_def)
    qed
  next
    case (Check state)
    with snoc show ?thesis
      by (simp add: hook_run_snoc checkForUpdates_def split: sum.splits)
  qed
qed

subsection \<open>The correlation text in a message\<close>

lemma sublist_before_last:
  assumes "sublist (c # cs) (m @ [z])" and "last (c # cs) \<noteq> z"
  shows "sublist (c # cs) m"
proof -
  from assms(1) consider "sublist (c # cs) m" | "sublist (c # cs) [z]"
    | xs1 xs2 where "c # cs = xs1 @ xs2" "suffix xs1 m" "prefix xs2 [z]"
    unfolding sublist_append by blast
  then show ?thesis
  proof cases
    case 1
    then show ?thesis .
  next
    case 2
    then have "c # cs = [z]" by (auto simp add: sublist_Cons_right prefix_Cons)
    with assms(2) show ?thesis by simp
  next
    case 3
    show ?thesis
    proof (cases xs2)
      case Nil
      with 3 show ?thesis by simp
    next
      case (Cons y ys)
      with 3(3) have "xs2 = [z]" by (auto simp add: prefix_Cons)
      with 3(1) have "last (c # cs) = z" by (metis last_snoc)
      with assms(2) show ?thesis by simp
    qed
  qed
qed

lemma sublist_after_prefix:
  assumes "sublist (c # cs) (p @ m)" and "c \<notin> set p"
  shows "sublist (c # cs) m"
proof -
  from assms(1) consider "sublist (c # cs) p" | "sublist (c # cs) m"
    | xs1 xs2 where "c # cs = xs1 @ xs2" "suffix xs1 p" "prefix xs2 m"
    unfolding sublist_append by blast
  then show ?thesis
  proof cases
    case 1
    then have "set (c # cs) \<subseteq> set p" by (rule set_mono_sublist)
    with assms(2) show ?thesis by simp
  next
    case 2
    then show ?thesis .
  next
    case 3
    show ?thesis
    proof (cases xs1)
      case Nil
      with 3 show ?thesis by auto
    next
      case (Cons y ys)
      with 3(1) have "c \<in> set xs1" by simp
      moreover from 3(2) have "set xs1 \<subseteq> set p" by (rule set_mono_suffix)
      ultimately show ?thesis using assms(2) by blast
    qed
  qed
qed

lemma sublist_between:
  assumes "sublist (c # cs) (p @ m @ [z])" and "c \<notin> set p" and "last (c # cs) \<noteq> z"
  shows "sublist (c # cs) m"
  using sublist_before_last [OF sublist_after_prefix [OF assms(1,2)] assms(3)] .

lemma correlationText_not_fabricated:
  assumes "\<not> sublist correlationText msg"
  shows "\<not> sublist correlationText
           (''An error occured while selecting the store state: '' @ msg @ ''.'')"
proof
  assume a: "sublist correlationText
           (''An error occured while selecting the store state: '' @ msg @ ''.'')"
  have "sublist correlationText msg"
    unfolding correlationText_def
    by (rule sublist_between [of _ _ "''An error occured while selecting the store state: ''" msg "CHR ''.''"])
       (use a in \<open>simp_all add: correlationText_def\<close>)
  with assms show False by simp
qed

lemma mount_throws:
  "sel state = Inl err \<Longrightarrow> useSelector_mount (Some sel) state =
     Inl (Error (''An error occured while selecting the store state: '' @ message err @ ''.''))"
  by (simp add: useSelector_mount_def requireSelector_def selectState_def)

lemma render_commit_clears:
  "sel state = Inr v \<Longrightarrow> latestSubscriptionCallbackError (hook_step (Render sel state) h) = None"
  by (simp add: render_returns effect_latest_def)

text \<open>
  Claim C4. Let a render-phase call of the selector throw \<open>err\<close>, after any history
  \<open>evs\<close> of the hook. The error raised has a message \<open>m\<close>. If a background failure was
  recorded since the last render pass that succeeded, \<open>m\<close> is the message about \<open>err\<close>
  followed by the correlation text and the stack of that failure, the latest one; if none
  was, \<open>m\<close> is the message about \<open>err\<close> alone, and contains the correlation text only
  if the message of \<open>err\<close> itself does. A throw in the first render of all has no
  correlation text added. A render pass that succeeds leaves the slot empty.
\<close>

theorem error_correlation:
  assumes "sel state = Inl err"
  shows "(\<exists>m. useSelector_rerender (Some sel) state (hook_run evs h0) = Inl (Error m) \<and>
            (case recordedSinceLastSuccess h0 (rev evs) of
               Some previous \<Rightarrow>
                 m = ''An error occured while selecting the store state: '' @ message err @ ''.'' @
                     newline # correlationText @ newline # stack previous @
                     newline # newline # ''Original stack trace:'' \<and>
                 sublist (correlationText @ newline # stack previous) m
             | None \<Rightarrow>
                 m = ''An error occured while selecting the store state: '' @ message err @ ''.'' \<and>
                 (\<not> sublist correlationText (message err) \<longrightarrow> \<not> sublist correlationText m)))
       \<and> useSelector_mount (Some sel) state =
           Inl (Error (''An error occured while selecting the store state: '' @ message err @ ''.''))
       \<and> (sel' state' = Inr v \<longrightarrow>
           latestSubscriptionCallbackError (hook_step (Render sel' state') (hook_run evs h0)) = None)"
proof -
  have slot: "latestSubscriptionCallbackError (hook_run evs h0) = recordedSinceLastSuccess h0 (rev evs)"
    using hook_history [of evs h0] by simp
  have first: "\<exists>m. useSelector_rerender (Some sel) state (hook_run evs h0) = Inl (Error m) \<and>
            (case recordedSinceLastSuccess h0 (rev evs) of
               Some previous \<Rightarrow>
                 m = ''An error occured while selecting the store state: '' @ message err @ ''.'' @
                     newline # correlationText @ newline # stack previous @
                     newline # newline # ''Original stack trace:'' \<and>
                 sublist (correlationText @ newline # stack previous) m
             | None \<Rightarrow>
                 m = ''An error occured while selecting the store state: '' @ message err @ ''.'' \<and>
                 (\<not> sublist correlationText (message err) \<longrightarrow> \<not> sublist correlationText m))"
  proof (cases "recordedSinceLastSuccess h0 (rev evs)")
    case None
    with slot render_throws [of sel state err "hook_run evs h0", OF assms] correlationText_not_fabricated
    show ?thesis by simp
  next
    case (Some previous)
    have sub: "sublist (correlationText @ newline # stack previous)
       (''An error occured while selecting the store state: '' @ message err @ ''.'' @
                     newline # correlationText @ newline # stack previous @
                     newline # newline # ''Original stack trace:'')"
      unfolding sublist_def
      by (rule exI [of _ "''An error occured while selecting the store state: '' @ message err @ ''.'' @ [newline]"],
          rule exI [of _ "newline # newline # ''Original stack trace:''"]) simp
    from Some slot render_throws [of sel state err "hook_run evs h0", OF assms] sub
    show ?thesis by simp
  qed
  from first mount_throws [of sel state err, OF assms] render_commit_clears [of sel' state' v "hook_run evs h0"]
  show ?thesis by blast
qed

lemma foo_throws: "positiveThrows (Number 1) = Inl fooError"
  by (simp add: positiveThrows_def)

text \<open>
  The selector that throws on a positive count: a check at count 1 records the failure
  and the next render is correlated with it; with a successful render after the check,
  the slot is empty and so is the first render of all.
\<close>

theorem error_correlation_witness:
  "positiveThrows (Number 1) = Inl fooError \<and>
   recordedSinceLastSuccess subscribedHook (rev [Check (Number 1)]) = Some fooError \<and>
   useSelector_rerender (Some positiveThrows) (Number 1) (hook_run [Check (Number 1)] subscribedHook) =
     Inl (Error (''An error occured while selecting the store state: foo.'' @
                 newline # ''The error may be correlated with this previous error:'' @
                 newline # ''Error: foo'' @ newline # newline # ''Original stack trace:'')) \<and>
   recordedSinceLastSuccess subscribedHook (rev [Check (Number 1), Render positiveThrows (Number 0)]) = None \<and>
   useSelector_rerender (Some positiveThrows) (Number 1)
       (hook_run [Check (Number 1), Render positiveThrows (Number 0)] subscribedHook) =
     Inl (Error ''An error occured while selecting the store state: foo.'') \<and>
   useSelector_mount (Some positiveThrows) (Number 1) =
     Inl (Error ''An error occured while selecting the store state: foo.'')"
proof -
  have a: "recordedSinceLastSuccess subscribedHook (rev [Check (Number 1)]) = Some fooError"
    by (simp add: subscribedHook_def positiveThrows_def)
  have b: "recordedSinceLastSuccess subscribedHook
      (rev [Check (Number 1), Render positiveThrows (Number 0)]) = None"
    by (simp add: positiveThrows_def)
  from error_correlation [of positiveThrows "Number 1" fooError "[Check (Number 1)]" subscribedHook,
      OF foo_throws]
    error_correlation [of positiveThrows "Number 1" fooError
      "[Check (Number 1), Render positiveThrows (Number 0)]" subscribedHook, OF foo_throws]
    a b foo_throws
  show ?thesis by (auto simp add: fooError_def correlationText_def)
qed

subsection \<open>Between render and subscription\<close>

text \<open>
  Claim C1. A render read the state \<open>s0\<close> and selected \<open>v0\<close>, and its commit is one in
  which the second effect runs: the hook \<open>h\<close> is not subscribed, being that of the first
  render or one whose old node the cleanup has detached, whatever selector and selection
  it committed last. By the time of the commit the store holds \<open>s1\<close>. The change itself
  does not reach the hook. The commit makes the selector of the render the latest one,
  subscribes and checks again against the rendered selection: if the selection from
  \<open>s1\<close> is not shallow-equal to \<open>v0\<close>, a render is forced, the new selection is kept,
  and the forced render selects it; if the selector throws on \<open>s1\<close>, a render is forced
  and the failure is recorded; if the selection is shallow-equal to the rendered one,
  there is nothing to apply and no render is forced.
\<close>

theorem no_missed_update:
  assumes "useSelector_render (Some sel) s0 slot = Inr v0" and "\<not> subscribed h"
  shows "storeChanged s1 h = h \<and>
         subscribed (commit_effects sel v0 s1 h) \<and> onStateChangeSet (commit_effects sel v0 s1 h) \<and>
         latestSelector (commit_effects sel v0 s1 h) = sel \<and>
         (sel s1 = Inr v1 \<and> \<not> shallowEqual v1 v0 \<longrightarrow>
            forceRenderCount (commit_effects sel v0 s1 h) = Suc (forceRenderCount h) \<and>
            latestSelectedState (commit_effects sel v0 s1 h) = v1 \<and>
            latestSubscriptionCallbackError (commit_effects sel v0 s1 h) = None \<and>
            useSelector_rerender (Some sel) s1 (commit_effects sel v0 s1 h) = Inr v1) \<and>
         (sel s1 = Inl e \<longrightarrow>
            forceRenderCount (commit_effects sel v0 s1 h) = Suc (forceRenderCount h) \<and>
            latestSubscriptionCallbackError (commit_effects sel v0 s1 h) = Some e) \<and>
         (sel s1 = Inr v1 \<and> shallowEqual v1 v0 \<longrightarrow>
            forceRenderCount (commit_effects sel v0 s1 h) = forceRenderCount h \<and>
            latestSelectedState (commit_effects sel v0 s1 h) = v0 \<and>
            latestSubscriptionCallbackError (commit_effects sel v0 s1 h) = None)"
proof -
  from assms(2) have "storeChanged s1 h = h" by (simp add: storeChanged_def)
  then show ?thesis
    by (auto simp add: commit_effects_def effect_subscribe_def subscription_trySubscribe_def
        effect_latest_def checkForUpdates_def render_returns split: sum.splits)
qed

text \<open>The two commits in which the second effect runs are of this kind.\<close>

lemma first_render_unsubscribed:
  assumes "useSelector_mount (Some sel) s0 = Inr (v0, h)"
  shows "useSelector_render (Some sel) s0 None = Inr v0 \<and> \<not> subscribed h"
  using assms
  by (auto simp add: useSelector_mount_def useSelector_render_def requireSelector_def
      split: sum.splits)

lemma resubscribe_unsubscribed:
  "commit_resubscribe sel v s h = commit_effects sel v s (newSubscription (effect_cleanup h)) \<and>
   \<not> subscribed (newSubscription (effect_cleanup h))"
  by (simp add: commit_resubscribe_def newSubscription_def)

lemma count_mount: "useSelector_mount (Some countSelector) countZero = Inr (Number 0, countHook)"
  by (simp add: useSelector_mount_def requireSelector_def selectState_def countSelector_def
      countZero_def countHook_def)

lemma count_render: "useSelector_render (Some countSelector) countZero None = Inr (Number 0)"
  by (simp add: useSelector_render_def requireSelector_def selectState_def countSelector_def
      countZero_def)

text \<open>
  The store goes from \<^verbatim>\<open>{count: 0}\<close> to \<^verbatim>\<open>{count: 7}\<close> between a render and its commit,
  on the hook that last committed the selection 7 with another selector and is
  subscribing again: a fourth render is forced and selects 7. And the store goes from
  \<^verbatim>\<open>{count: 0}\<close> to \<^verbatim>\<open>{count: 1}\<close> between the first render of a hook and its commit: a
  first render is forced.
\<close>

theorem no_missed_update_witness:
  "useSelector_render (Some countSelector) countZero None = Inr (Number 0) \<and>
   \<not> subscribed (newSubscription (effect_cleanup staleHook)) \<and>
   countSelector countSeven = Inr (Number 7) \<and> \<not> shallowEqual (Number 7) (Number 0) \<and>
   latestSelectedState staleHook = Number 7 \<and> forceRenderCount staleHook = 3 \<and>
   subscribed (commit_resubscribe countSelector (Number 0) countSeven staleHook) \<and>
   latestSelector (commit_resubscribe countSelector (Number 0) countSeven staleHook) = countSelector \<and>
   forceRenderCount (commit_resubscribe countSelector (Number 0) countSeven staleHook) = 4 \<and>
   latestSelectedState (commit_resubscribe countSelector (Number 0) countSeven staleHook) = Number 7 \<and>
   useSelector_rerender (Some countSelector) countSeven
     (commit_resubscribe countSelector (Number 0) countSeven staleHook) = Inr (Number 7) \<and>
   useSelector_mount (Some countSelector) countZero = Inr (Number 0, countHook) \<and>
   countSelector countOne = Inr (Number 1) \<and> \<not> shallowEqual (Number 1) (Number 0) \<and>
   forceRenderCount (commit_effects countSelector (Number 0) countOne countHook) = 1 \<and>
   latestSelectedState (commit_effects countSelector (Number 0) countOne countHook) = Number 1"
proof -
  have u: "\<not> subscribed (newSubscription (effect_cleanup staleHook))"
    by (simp add: newSubscription_def)
  have a: "countSelector countSeven = Inr (Number 7)"
    by (simp add: countSelector_def countSeven_def)
  have b: "\<not> shallowEqual (Number 7) (Number 0)"
    by (simp add: shallowEqual_def)
  have c: "forceRenderCount (newSubscription (effect_cleanup staleHook)) = 3"
    "latestSelectedState staleHook = Number 7" "forceRenderCount staleHook = 3"
    by (simp_all add: newSubscription_def effect_cleanup_def subscription_tryUnsubscribe_def
        staleHook_def)
  have m: "\<not> subscribed countHook" "forceRenderCount countHook = 0"
    by (simp_all add: countHook_def)
  have a1: "countSelector countOne = Inr (Number 1)"
    by (simp add: countSelector_def countOne_def)
  have b1: "\<not> shallowEqual (Number 1) (Number 0)"
    by (simp add: shallowEqual_def)
  from no_missed_update [OF count_render u, of countSeven "Number 7"]
    no_missed_update [OF count_render m(1), of countOne "Number 1"]
    a b c a1 b1 m count_render count_mount u
  show ?thesis by (simp add: commit_resubscribe_def)
qed

subsection \<open>The comparison\<close>

text \<open>
  Claim C9, amended. The hook takes the selector alone. The check after a store change
  forces a render exactly when the latest selector throws or its result is not
  shallow-equal to the previously selected state: the comparison is always
  \<^verbatim>\<open>shallowEqual\<close>.
\<close>

theorem comparison_is_shallow_equality:
  "(forceRenderCount (checkForUpdates state h) \<noteq> forceRenderCount h) =
     (case latestSelector h state of
        Inr newSelectedState \<Rightarrow> \<not> shallowEqual newSelectedState (latestSelectedState h)
      | Inl err \<Rightarrow> True)"
  by (simp add: checkForUpdates_def split: sum.splits)

text \<open>A state with another count: the selection differs and a render is forced.\<close>

theorem comparison_is_shallow_equality_witness:
  "latestSelector pickHook stateC = Inr (Object 103 Plain [(''count'', Number 5)]) \<and>
   \<not> shallowEqual (Object 103 Plain [(''count'', Number 5)]) (latestSelectedState pickHook) \<and>
   forceRenderCount (checkForUpdates stateC pickHook) \<noteq> forceRenderCount pickHook"
  using comparison_is_shallow_equality [of stateC pickHook]
  by (simp add: pickCount_def stateC_def pickHook_def shallowEqual_def)

text \<open>
  Claim C9 as stated fails. With reference equality as the function the caller would
  supply, the new selection (a new object with the same content) differs from the
  previous one, so that function asks for a render; the hook, which compares by shallow
  equality, forces none.
\<close>

theorem equality_override_counterexample:
  "pickCount stateB = Inr (Object 102 Plain [(''count'', Number 0)]) \<and>
   latestSelector pickHook = pickCount \<and>
   \<not> strictEq (Object 102 Plain [(''count'', Number 0)]) (latestSelectedState pickHook) \<and>
   forceRenderCount (storeChanged stateB pickHook) = forceRenderCount pickHook"
  by (simp add: pickCount_def stateB_def pickHook_def storeChanged_def checkForUpdates_def
      shallowEqual_def)

section \<open>Properties of the subscription tree\<close>










end
